theory Spec2Isabelle
  imports
    Complex_Main
    "HOL-Library.Multiset"
    "HOL-Library.Char_ord"
    "HOL-Library.List_Lexorder"
    "HOL-Library.Product_Lexorder"
begin

section \<open>Record sets\<close>

text \<open>
  A cell of a pandas DataFrame as \<^verbatim>\<open>ga4_to_excel.py\<close> handles it: a string (every value
  of the reporting API arrives as one), a finite number, one of the two infinities, or
  the missing-value marker. pandas uses one marker, NaN, for a missing number, for the
  text of a date that did not parse (NaT formatted by \<^verbatim>\<open>strftime\<close>) and for a column
  that one side of a concatenation lacks.

  Numbers are exact rationals: the binary rounding of float64 is not modelled.
\<close>

datatype cell = Str string | Num rat | PInf | NInf | NaN

text \<open>
  A row maps column names to cells and is NaN outside the columns of its frame, which
  is what \<^verbatim>\<open>pd.concat\<close> fills in for a column that a row's frame did not have.
  The frame keeps the column names in order; the row index is not modelled (the sheet is
  written with \<^verbatim>\<open>include_index=False\<close>).
\<close>

type_synonym row = "string \<Rightarrow> cell"

record frame =
  columns :: "string list"
  rows :: "row list"

text \<open>\<^verbatim>\<open>pd.DataFrame()\<close>: no columns, no rows.\<close>

definition DataFrame_empty :: frame where
  "DataFrame_empty = \<lparr>columns = [], rows = []\<rparr>"

text \<open>\<^verbatim>\<open>df.empty\<close>: true when either axis has length 0.\<close>

definition df_empty :: "frame \<Rightarrow> bool" where
  "df_empty df \<longleftrightarrow> columns df = [] \<or> rows df = []"

text \<open>\<^verbatim>\<open>df[c]\<close> read as a list, and the cell values in column order (what is written).\<close>

definition column :: "string \<Rightarrow> frame \<Rightarrow> cell list" where
  "column c df = map (\<lambda>r. r c) (rows df)"

definition values_of :: "frame \<Rightarrow> cell list list" where
  "values_of df = map (\<lambda>r. map r (columns df)) (rows df)"

text \<open>\<^verbatim>\<open>pd.DataFrame(rows, columns=columns)\<close> on lists of strings: the widest row must
  have as many values as there are columns, and a shorter row is padded with the
  missing-value marker.\<close>

datatype error = KeyError string | TypeError | ValueError | IndexError | External string

definition row_of :: "string list \<Rightarrow> string list \<Rightarrow> row" where
  "row_of cols vals = (\<lambda>c. case map_of (zip cols vals) c of Some v \<Rightarrow> Str v | None \<Rightarrow> NaN)"

definition DataFrame :: "string list list \<Rightarrow> string list \<Rightarrow> error + frame" where
  "DataFrame data cols =
     (if data \<noteq> [] \<and> foldr max (map length data) 0 \<noteq> length cols then Inl ValueError
      else Inr \<lparr>columns = cols, rows = map (row_of cols) data\<rparr>)"

section \<open>The library, as far as the program relies on it\<close>

text \<open>
  Three pieces of pandas and numpy are parameters, because their exact behaviour is fixed
  by the library and not by the program:
  \<^item> \<open>to_number\<close>: the numeric-literal reader behind \<^verbatim>\<open>pd.to_numeric\<close>; \<open>None\<close> is a
    text that is not a number;
  \<^item> \<open>strptime_other\<close>: what \<^verbatim>\<open>pd.to_datetime(format='%Y%m%d')\<close> makes of a value
    that is not eight digits with a year the nanosecond timestamp can hold;
  \<^item> \<open>argsort\<close>: the sort kernel behind \<^verbatim>\<open>sort_values\<close> with the default
    \<^verbatim>\<open>kind='quicksort'\<close>, on keys paired with their rows, ascending.
\<close>

type_synonym date = "nat \<times> nat \<times> nat"

record pandas =
  to_number :: "string \<Rightarrow> cell option"
  strptime_other :: "cell \<Rightarrow> date option"
  argsort :: "(cell \<times> row) list \<Rightarrow> (cell \<times> row) list"

subsection \<open>Numbers\<close>

text \<open>\<^verbatim>\<open>pd.to_numeric(col, errors='coerce')\<close>, cell by cell: a text that is not a number
  becomes NaN, a number stays.\<close>

definition to_numeric :: "pandas \<Rightarrow> cell \<Rightarrow> cell" where
  "to_numeric L c =
     (case c of
        Str s \<Rightarrow> (case to_number L s of
                    Some (Num q) \<Rightarrow> Num q
                  | Some PInf \<Rightarrow> PInf
                  | Some NInf \<Rightarrow> NInf
                  | _ \<Rightarrow> NaN)
      | _ \<Rightarrow> c)"

text \<open>\<^verbatim>\<open>.round(4)\<close>: to the nearest multiple of 1/10000, a tie going to the even one.\<close>

definition round_half_even :: "rat \<Rightarrow> int" where
  "round_half_even x =
     (let f = \<lfloor>x\<rfloor>; d = x - of_int f
      in if d < 1 / 2 then f else if 1 / 2 < d then f + 1 else if even f then f else f + 1)"

definition round4 :: "cell \<Rightarrow> cell" where
  "round4 c = (case c of Num q \<Rightarrow> Num (of_int (round_half_even (q * 10000)) / 10000) | _ \<Rightarrow> c)"

text \<open>\<^verbatim>\<open>.fillna(0)\<close>.\<close>

definition fillna0 :: "cell \<Rightarrow> cell" where
  "fillna0 c = (case c of NaN \<Rightarrow> Num 0 | _ \<Rightarrow> c)"

text \<open>\<^verbatim>\<open>.astype('Int64')\<close> accepts a column whose numbers are whole and fit 64 signed
  bits (a missing value stays missing), and raises TypeError on any other.\<close>

definition int64_ok :: "cell \<Rightarrow> bool" where
  "int64_ok c =
     (case c of
        Num q \<Rightarrow> q = of_int \<lfloor>q\<rfloor> \<and> - (2 ^ 63) \<le> \<lfloor>q\<rfloor> \<and> \<lfloor>q\<rfloor> < 2 ^ 63
      | NaN \<Rightarrow> True
      | _ \<Rightarrow> False)"

subsection \<open>Dates\<close>

definition digits :: string where
  "digits = ''0123456789''"

definition is_digit :: "char \<Rightarrow> bool" where
  "is_digit c \<longleftrightarrow> c \<in> set digits"

definition digit_val :: "char \<Rightarrow> nat" where
  "digit_val c = length (takeWhile (\<lambda>d. d \<noteq> c) digits)"

definition digit_char :: "nat \<Rightarrow> char" where
  "digit_char n = digits ! (n mod 10)"

definition nat_of_digits :: "string \<Rightarrow> nat" where
  "nat_of_digits s = foldl (\<lambda>n c. 10 * n + digit_val c) 0 s"

definition leap_year :: "nat \<Rightarrow> bool" where
  "leap_year y \<longleftrightarrow> y mod 4 = 0 \<and> (y mod 100 \<noteq> 0 \<or> y mod 400 = 0)"

definition days_in_month :: "nat \<Rightarrow> nat \<Rightarrow> nat" where
  "days_in_month y m =
     (if m = 2 then (if leap_year y then 29 else 28)
      else if m \<in> {4, 6, 9, 11} then 30 else 31)"

definition valid_date :: "date \<Rightarrow> bool" where
  "valid_date dt = (case dt of (y, m, d) \<Rightarrow> 1 \<le> m \<and> m \<le> 12 \<and> 1 \<le> d \<and> d \<le> days_in_month y m)"

text \<open>The compact form: eight digits, year, month, day, with a year that lies wholly
  inside the range of a nanosecond timestamp (1677-09-21 to 2262-04-11).\<close>

definition compact_form :: "string \<Rightarrow> bool" where
  "compact_form s \<longleftrightarrow>
     length s = 8 \<and> list_all is_digit s \<and>
     1678 \<le> nat_of_digits (take 4 s) \<and> nat_of_digits (take 4 s) \<le> 2261"

definition compact_date :: "string \<Rightarrow> date" where
  "compact_date s =
     (nat_of_digits (take 4 s), nat_of_digits (take 2 (drop 4 s)), nat_of_digits (drop 6 s))"

text \<open>\<^verbatim>\<open>pd.to_datetime(col, format='%Y%m%d', errors='coerce')\<close>, cell by cell; \<open>None\<close> is
  NaT. A text in compact form is a date exactly when it names a day of the calendar.\<close>

definition to_datetime :: "pandas \<Rightarrow> cell \<Rightarrow> date option" where
  "to_datetime L c =
     (case c of
        Str s \<Rightarrow> (if compact_form s
                  then (if valid_date (compact_date s) then Some (compact_date s) else None)
                  else strptime_other L c)
      | NaN \<Rightarrow> None
      | _ \<Rightarrow> strptime_other L c)"

definition pad2 :: "nat \<Rightarrow> string" where
  "pad2 n = [digit_char (n div 10 mod 10), digit_char (n mod 10)]"

definition pad4 :: "nat \<Rightarrow> string" where
  "pad4 n = [digit_char (n div 1000 mod 10), digit_char (n div 100 mod 10),
             digit_char (n div 10 mod 10), digit_char (n mod 10)]"

text \<open>\<^verbatim>\<open>.dt.strftime('%Y-%m-%d')\<close>: NaT gives NaN.\<close>

definition strftime :: "date option \<Rightarrow> cell" where
  "strftime t =
     (case t of
        None \<Rightarrow> NaN
      | Some (y, m, d) \<Rightarrow> Str (pad4 y @ ''-'' @ pad2 m @ ''-'' @ pad2 d))"

section \<open>format\_dataframe\<close>

text \<open>\<^verbatim>\<open>df[c] = f(df[c])\<close> for a function that works cell by cell.\<close>

definition set_column :: "string \<Rightarrow> (cell \<Rightarrow> cell) \<Rightarrow> frame \<Rightarrow> frame" where
  "set_column c f df = df\<lparr>rows := map (\<lambda>r. r(c := f (r c))) (rows df)\<rparr>"

text \<open>Lines 149 to 151.\<close>

definition format_date :: "pandas \<Rightarrow> frame \<Rightarrow> frame" where
  "format_date L df =
     (if ''date'' \<in> set (columns df)
      then set_column ''date'' (\<lambda>c. strftime (to_datetime L c)) df
      else df)"

text \<open>One turn of the loop of lines 154 to 158; reading \<^verbatim>\<open>df[metric]\<close> raises KeyError
  when the frame has no such column.\<close>

definition convert_metric :: "pandas \<Rightarrow> string \<Rightarrow> frame \<Rightarrow> error + frame" where
  "convert_metric L metric df =
     (if metric \<notin> set (columns df) then Inl (KeyError metric)
      else if metric \<in> set [''bounceRate'', ''averageSessionDuration'']
      then Inr (set_column metric (\<lambda>c. round4 (to_numeric L c)) df)
      else (let df' = set_column metric (\<lambda>c. fillna0 (to_numeric L c)) df
            in if list_all int64_ok (column metric df') then Inr df' else Inl TypeError))"

fun convert_metrics :: "pandas \<Rightarrow> string list \<Rightarrow> frame \<Rightarrow> error + frame" where
  "convert_metrics L [] df = Inr df"
| "convert_metrics L (metric # metrics) df =
     (case convert_metric L metric df of
        Inl e \<Rightarrow> Inl e
      | Inr df' \<Rightarrow> convert_metrics L metrics df')"

text \<open>\<^verbatim>\<open>df.insert(loc, name, value)\<close> raises ValueError when the column exists and
  IndexError when \<open>loc\<close> is beyond the columns.\<close>

definition insert_column :: "nat \<Rightarrow> string \<Rightarrow> cell \<Rightarrow> frame \<Rightarrow> error + frame" where
  "insert_column loc name v df =
     (if name \<in> set (columns df) then Inl ValueError
      else if length (columns df) < loc then Inl IndexError
      else Inr \<lparr>columns = take loc (columns df) @ [name] @ drop loc (columns df),
                rows = map (\<lambda>r. r(name := v)) (rows df)\<rparr>)"

text \<open>Lines 144 to 164. \<open>now\<close> is the text of \<^verbatim>\<open>datetime.now()\<close>; \<open>dimensions\<close> is
  passed and never read, as in the source.\<close>

definition format_dataframe ::
  "pandas \<Rightarrow> string \<Rightarrow> frame \<Rightarrow> string list \<Rightarrow> string list \<Rightarrow> error + frame" where
  "format_dataframe L now df dimensions metrics =
     (if df_empty df then Inr df
      else (case convert_metrics L metrics (format_date L df) of
              Inl e \<Rightarrow> Inl e
            | Inr df2 \<Rightarrow>
                (case insert_column 0 ''last_updated'' (Str now) df2 of
                   Inl e \<Rightarrow> Inl e
                 | Inr df3 \<Rightarrow> insert_column 1 ''data_freshness'' (Str ''live'') df3)))"

section \<open>The sheet and the services around the program\<close>

text \<open>
  What the program does to the spreadsheet, and the warnings and errors it logs (the
  \<^verbatim>\<open>logger.info\<close> lines are left out), in the order they happen.
\<close>

datatype event =
    AddWorksheet string
  | Clear
  | Write frame
  | FormatHeader
  | AutoResize
  | LogWarning string
  | LogError string

definition sheet_op :: "event \<Rightarrow> bool" where
  "sheet_op ev = (case ev of LogWarning _ \<Rightarrow> False | LogError _ \<Rightarrow> False | _ \<Rightarrow> True)"

text \<open>
  The spreadsheet: its first worksheet, the worksheets found by title, and the journal of events.
  The content of a worksheet is the frame that \<^verbatim>\<open>get_as_dataframe\<close> reads from it.
\<close>

record world =
  sheet1 :: frame
  tabs :: "string \<rightharpoonup> frame"
  journal :: "event list"

text \<open>
  Each call of an outside service either goes through or raises the exception given
  here; \<open>report\<close> is the answer of \<^verbatim>\<open>run_report\<close>, each row with its dimension
  values and its metric values.
\<close>

record env =
  setup_err :: "error option"
  report :: "error + (string list \<times> string list) list"
  open_err :: "error option"
  worksheet_err :: "error option"
  add_err :: "error option"
  read_err :: "error option"
  clear_err :: "error option"
  write_err :: "error option"
  format_err :: "error option"
  resize_err :: "error option"

definition logged :: "event list \<Rightarrow> world \<Rightarrow> world" where
  "logged evs w = w\<lparr>journal := journal w @ evs\<rparr>"

text \<open>A worksheet handle: \<open>None\<close> is \<^verbatim>\<open>sheet.sheet1\<close>, \<open>Some title\<close> a named one.\<close>

definition content :: "string option \<Rightarrow> world \<Rightarrow> frame" where
  "content ws w =
     (case ws of
        None \<Rightarrow> sheet1 w
      | Some title \<Rightarrow> (case tabs w title of Some f \<Rightarrow> f | None \<Rightarrow> DataFrame_empty))"

definition set_content :: "string option \<Rightarrow> frame \<Rightarrow> world \<Rightarrow> world" where
  "set_content ws f w =
     (case ws of
        None \<Rightarrow> w\<lparr>sheet1 := f\<rparr>
      | Some title \<Rightarrow> w\<lparr>tabs := (tabs w)(title \<mapsto> f)\<rparr>)"

section \<open>fetch\_ga4\_data\<close>

definition default_dimensions :: "string list" where
  "default_dimensions = [''date'', ''country'', ''deviceCategory'', ''sessionSource'']"

definition default_metrics :: "string list" where
  "default_metrics =
     [''sessions'', ''totalUsers'', ''newUsers'', ''bounceRate'', ''averageSessionDuration'',
      ''screenPageViews'', ''conversions'']"

text \<open>Lines 77 to 142. The date range only goes into the request, whose answer is
  \<open>report env\<close>, so it is not a parameter here.\<close>

definition fetch_ga4_data ::
  "pandas \<Rightarrow> string \<Rightarrow> env \<Rightarrow> string list option \<Rightarrow> string list option \<Rightarrow> world
     \<Rightarrow> (error + frame) \<times> world" where
  "fetch_ga4_data L now env dimensions metrics w =
     (let dims = (case dimensions of None \<Rightarrow> default_dimensions | Some ds \<Rightarrow> ds);
          mets = (case metrics of None \<Rightarrow> default_metrics | Some ms \<Rightarrow> ms);
          raised = (\<lambda>e. (Inl e, logged [LogError ''Error fetching GA4 data''] w))
      in case report env of
           Inl e \<Rightarrow> raised e
         | Inr response_rows \<Rightarrow>
             if response_rows = []
             then (Inr DataFrame_empty, logged [LogWarning ''No data returned from GA4 API''] w)
             else (case DataFrame (map (\<lambda>(dvs, mvs). dvs @ mvs) response_rows) (dims @ mets) of
                     Inl e \<Rightarrow> raised e
                   | Inr df \<Rightarrow>
                       (case format_dataframe L now df dims mets of
                          Inl e \<Rightarrow> raised e
                        | Inr df' \<Rightarrow> (Inr df', w))))"

section \<open>get\_existing\_sheet\_data\<close>

text \<open>\<^verbatim>\<open>dropna(how='all')\<close> and \<^verbatim>\<open>dropna(axis=1, how='all')\<close>.\<close>

definition dropna_rows :: "frame \<Rightarrow> frame" where
  "dropna_rows df =
     df\<lparr>rows := filter (\<lambda>r. \<not> list_all (\<lambda>c. r c = NaN) (columns df)) (rows df)\<rparr>"

definition dropna_columns :: "frame \<Rightarrow> frame" where
  "dropna_columns df =
     df\<lparr>columns := filter (\<lambda>c. \<not> list_all (\<lambda>r. r c = NaN) (rows df)) (columns df)\<rparr>"

text \<open>Lines 166 to 185: whatever the read raises is caught, logged as a warning and
  answered with the empty frame.\<close>

definition get_existing_sheet_data :: "env \<Rightarrow> string option \<Rightarrow> world \<Rightarrow> frame \<times> world" where
  "get_existing_sheet_data env worksheet w =
     (case read_err env of
        Some e \<Rightarrow> (DataFrame_empty, logged [LogWarning ''Could not read existing data''] w)
      | None \<Rightarrow>
          (let existing_df = dropna_columns (dropna_rows (content worksheet w))
           in if df_empty existing_df then (DataFrame_empty, w) else (existing_df, w)))"

section \<open>update\_google\_sheet\<close>

text \<open>Lines 197 to 204. An empty title is false in Python and selects the first sheet.\<close>

definition select_worksheet ::
  "env \<Rightarrow> string option \<Rightarrow> world \<Rightarrow> (error + string option) \<times> world" where
  "select_worksheet env worksheet_name w =
     (case worksheet_name of
        None \<Rightarrow> (Inr None, w)
      | Some title \<Rightarrow>
          if title = [] then (Inr None, w)
          else (case worksheet_err env of
                  Some e \<Rightarrow> (Inl e, w)
                | None \<Rightarrow>
                    (case tabs w title of
                       Some f \<Rightarrow> (Inr (Some title), w)
                     | None \<Rightarrow>
                         (case add_err env of
                            Some e \<Rightarrow> (Inl e, w)
                          | None \<Rightarrow>
                              (Inr (Some title),
                               logged [AddWorksheet title]
                                 (w\<lparr>tabs := (tabs w)(title \<mapsto> DataFrame_empty)\<rparr>))))))"

text \<open>Lines 211 to 220: the existing rows whose date is also a date of the new data
  are removed.\<close>

definition drop_duplicate_dates :: "frame \<Rightarrow> frame \<Rightarrow> frame" where
  "drop_duplicate_dates df existing_df =
     (if \<not> df_empty existing_df \<and> ''date'' \<in> set (columns df)
         \<and> ''date'' \<in> set (columns existing_df)
      then (let new_dates = set (column ''date'' df);
                existing_dates = set (column ''date'' existing_df);
                duplicate_dates = new_dates \<inter> existing_dates
            in if duplicate_dates \<noteq> {}
               then existing_df\<lparr>rows := filter (\<lambda>r. r ''date'' \<notin> duplicate_dates)
                                              (rows existing_df)\<rparr>
               else existing_df)
      else existing_df)"

text \<open>\<^verbatim>\<open>pd.concat([a, b], ignore_index=True)\<close>: the columns of \<open>a\<close>, then those only
  \<open>b\<close> has; the rows of \<open>a\<close>, then the rows of \<open>b\<close>.\<close>

definition pd_concat :: "frame \<Rightarrow> frame \<Rightarrow> frame" where
  "pd_concat a b =
     \<lparr>columns = columns a @ filter (\<lambda>c. c \<notin> set (columns a)) (columns b),
      rows = rows a @ rows b\<rparr>"

text \<open>Lines 222 to 228.\<close>

definition combine :: "frame \<Rightarrow> frame \<Rightarrow> frame" where
  "combine df existing_df = (if df_empty existing_df then df else pd_concat df existing_df)"

text \<open>
  \<^verbatim>\<open>sort_values(c, ascending=False)\<close>, as pandas does it for one column: the rows with a
  missing key go last, in their order; the others are reversed, handed to the sort
  kernel, and the result is reversed. Python orders strings among themselves and
  numbers among themselves; comparing a string with a number raises TypeError.
\<close>

definition is_Str :: "cell \<Rightarrow> bool" where
  "is_Str c = (case c of Str _ \<Rightarrow> True | _ \<Rightarrow> False)"

definition comparable :: "cell list \<Rightarrow> bool" where
  "comparable ks \<longleftrightarrow> list_all is_Str ks \<or> list_all (\<lambda>k. \<not> is_Str k) ks"

text \<open>
  The order of the keys that can be compared: numbers by value between the two
  infinities, strings by their characters, and the missing key below all, so that
  "missing last" is part of "descending".
\<close>

definition sort_rank :: "cell \<Rightarrow> nat \<times> rat \<times> string" where
  "sort_rank c =
     (case c of
        NaN \<Rightarrow> (0, 0, [])
      | NInf \<Rightarrow> (1, 0, [])
      | Num q \<Rightarrow> (2, q, [])
      | PInf \<Rightarrow> (3, 0, [])
      | Str s \<Rightarrow> (4, 0, s))"

text \<open>What the library promises of the sort kernel, whatever its \<^verbatim>\<open>kind\<close>: on keys
  that can be compared it returns the same pairs, in ascending order of the keys.\<close>

definition sorts :: "((cell \<times> row) list \<Rightarrow> (cell \<times> row) list) \<Rightarrow> bool" where
  "sorts srt \<longleftrightarrow>
     (\<forall>xs. comparable (map fst xs) \<and> NaN \<notin> set (map fst xs) \<longrightarrow>
        mset (srt xs) = mset xs \<and> sorted (map (\<lambda>p. sort_rank (fst p)) (srt xs)))"

subsection \<open>The kernel of the default kind\<close>

text \<open>
  The call of line 232 names no \<^verbatim>\<open>kind\<close>, so the kernel is the default one,
  \<^verbatim>\<open>'quicksort'\<close>. On a column of Python objects, which a column of date strings is,
  numpy runs its generic \<^verbatim>\<open>npy_aquicksort\<close>, an introsort: a range of more than 17
  elements is partitioned around the median of its first, middle and last element, a
  shorter range is sorted by insertion, and \<^verbatim>\<open>npy_aheapsort\<close> takes over a range whose
  depth count is used up. The functions below follow that code statement by
  statement; where the code permutes a vector of indices into the keys, they permute
  the list of the keys paired with their rows.
\<close>

type_synonym keyed = "cell \<times> row"

text \<open>\<^verbatim>\<open>cmp(p, q) < 0\<close> on keys that can be compared.\<close>

definition key_less :: "keyed \<Rightarrow> keyed \<Rightarrow> bool" where
  "key_less p q \<longleftrightarrow> sort_rank (fst p) < sort_rank (fst q)"

text \<open>\<^verbatim>\<open>INTP_SWAP(a[i], a[j])\<close>.\<close>

definition swap_at :: "nat \<Rightarrow> nat \<Rightarrow> 'a list \<Rightarrow> 'a list" where
  "swap_at i j xs = (xs[i := xs ! j])[j := xs ! i]"

text \<open>The two scans of the partition: \<^verbatim>\<open>while (a[i] < vp) ++i\<close> from \<open>i\<close> upwards and
  \<^verbatim>\<open>while (vp < a[j]) --j\<close> from \<open>j\<close> downwards.\<close>

definition scan_up :: "keyed list \<Rightarrow> keyed \<Rightarrow> nat \<Rightarrow> nat" where
  "scan_up a vp i = i + length (takeWhile (\<lambda>p. key_less p vp) (drop i a))"

definition scan_down :: "keyed list \<Rightarrow> keyed \<Rightarrow> nat \<Rightarrow> nat" where
  "scan_down a vp j = j - length (takeWhile (\<lambda>p. key_less vp p) (rev (take (Suc j) a)))"

text \<open>The loop \<^verbatim>\<open>for (;;) { do ++i while (a[i] < vp); do --j while (vp < a[j]);
  if (i >= j) break; swap }\<close>.\<close>

function hoare :: "keyed \<Rightarrow> keyed list \<Rightarrow> nat \<Rightarrow> nat \<Rightarrow> keyed list \<times> nat" where
  "hoare vp a i j =
     (let i' = scan_up a vp (Suc i); j' = scan_down a vp (j - 1)
      in if j' \<le> i' then (a, i') else hoare vp (swap_at i' j' a) i' j')"
  by pat_completeness auto
termination
  by (relation "measure (\<lambda>(vp, a, i, j). j - i)")
     (auto simp: scan_up_def scan_down_def)

text \<open>One partition of the range from \<open>pl\<close> to \<open>pr\<close>: the median of three goes to the
  middle, then next to the right end, the loop runs between the ends, and the pivot
  is put where the loop stopped.\<close>

definition partition_range :: "keyed list \<Rightarrow> nat \<Rightarrow> nat \<Rightarrow> keyed list \<times> nat" where
  "partition_range a pl pr =
     (let pm = pl + (pr - pl) div 2;
          a1 = (if key_less (a ! pm) (a ! pl) then swap_at pm pl a else a);
          a2 = (if key_less (a1 ! pr) (a1 ! pm) then swap_at pr pm a1 else a1);
          a3 = (if key_less (a2 ! pm) (a2 ! pl) then swap_at pm pl a2 else a2);
          vp = a3 ! pm;
          (a4, i) = hoare vp (swap_at pm (pr - 1) a3) pl (pr - 1)
      in (swap_at i (pr - 1) a4, i))"

text \<open>The insertion sort of a short range: each element moves left past the elements
  that are greater, and stays right of the equal ones.\<close>

definition insert_back :: "keyed \<Rightarrow> keyed list \<Rightarrow> keyed list" where
  "insert_back x ys =
     (let k = length ys - length (takeWhile (\<lambda>y. key_less x y) (rev ys))
      in take k ys @ [x] @ drop k ys)"

definition insertion_sort_range :: "keyed list \<Rightarrow> nat \<Rightarrow> nat \<Rightarrow> keyed list" where
  "insertion_sort_range a pl pr =
     take pl a @ foldl (\<lambda>before x. insert_back x before) [] (take (Suc pr - pl) (drop pl a))
       @ drop (Suc pr) a"

text \<open>\<^verbatim>\<open>npy_aheapsort\<close> on a range, with the heap counted from 1 as in the code: the
  sift of \<open>tmp\<close> down from place \<open>i\<close> (the fuel is the size of the heap, more than the
  sift has steps), the heap built from the middle down, and the greatest element
  taken off until one is left.\<close>

fun sift :: "nat \<Rightarrow> keyed \<Rightarrow> nat \<Rightarrow> keyed list \<Rightarrow> nat \<Rightarrow> nat \<Rightarrow> keyed list" where
  "sift 0 tmp n h i j = h[i - 1 := tmp]"
| "sift (Suc fuel) tmp n h i j =
     (if j \<le> n
      then (let j' = (if j < n \<and> key_less (h ! (j - 1)) (h ! j) then j + 1 else j)
            in if key_less tmp (h ! (j' - 1))
               then sift fuel tmp n (h[i - 1 := h ! (j' - 1)]) j' (j' + j')
               else h[i - 1 := tmp])
      else h[i - 1 := tmp])"

fun pop_heap :: "nat \<Rightarrow> keyed list \<Rightarrow> keyed list" where
  "pop_heap 0 h = h"
| "pop_heap (Suc m) h =
     (if m = 0 then h
      else pop_heap m (sift m (h ! m) m (h[m := h ! 0]) 1 2))"

definition npy_aheapsort :: "keyed list \<Rightarrow> nat \<Rightarrow> nat \<Rightarrow> keyed list" where
  "npy_aheapsort a pl pr =
     (let n = Suc pr - pl;
          h = take n (drop pl a);
          heap = foldl (\<lambda>h l. sift n (h ! (l - 1)) n h l (l + l)) h (rev [1..<Suc (n div 2)])
      in take pl a @ pop_heap n heap @ drop (Suc pr) a)"

text \<open>\<^verbatim>\<open>npy_get_msb\<close>: the place of the highest bit.\<close>

fun npy_get_msb :: "nat \<Rightarrow> nat" where
  "npy_get_msb n = (if n < 2 then 0 else Suc (npy_get_msb (n div 2)))"

declare npy_get_msb.simps [simp del]

text \<open>
  The sort of one range. The code keeps the ranges still to do on a stack, the longer
  part of each partition pushed with the depth count and the shorter one continued;
  the ranges do not overlap, so here the shorter part is sorted and then the longer.
  The depth count is looked at when a range comes off the stack (\<open>popped\<close>), not while
  a range is continued. Each call is on a shorter range, so a fuel of the length of
  the list is never used up.
\<close>

fun introsort :: "nat \<Rightarrow> bool \<Rightarrow> int \<Rightarrow> keyed list \<Rightarrow> nat \<Rightarrow> nat \<Rightarrow> keyed list" where
  "introsort 0 popped cdepth a pl pr = a"
| "introsort (Suc fuel) popped cdepth a pl pr =
     (if popped \<and> cdepth < 0 then npy_aheapsort a pl pr
      else if 16 < pr - pl
      then (case partition_range a pl pr of
              (a', i) \<Rightarrow>
                if i - pl < pr - i
                then introsort fuel True (cdepth - 1)
                       (introsort fuel False (cdepth - 1) a' pl (i - 1)) (i + 1) pr
                else introsort fuel True (cdepth - 1)
                       (introsort fuel False (cdepth - 1) a' (i + 1) pr) pl (i - 1))
      else insertion_sort_range a pl pr)"

definition npy_aquicksort :: "keyed list \<Rightarrow> keyed list" where
  "npy_aquicksort xs =
     (if xs = [] then []
      else introsort (length xs) True (2 * int (npy_get_msb (length xs))) xs 0 (length xs - 1))"

text \<open>\<^verbatim>\<open>sort_values(c, ascending=False)\<close> itself.\<close>

definition sort_values_desc :: "pandas \<Rightarrow> string \<Rightarrow> frame \<Rightarrow> error + frame" where
  "sort_values_desc L c df =
     (let keyed = map (\<lambda>r. (r c, r)) (rows df);
          non_nans = filter (\<lambda>p. fst p \<noteq> NaN) keyed;
          nans = filter (\<lambda>p. fst p = NaN) keyed
      in if comparable (map fst non_nans)
         then Inr (df\<lparr>rows := map snd (rev (argsort L (rev non_nans)) @ nans)\<rparr>)
         else Inl TypeError)"

text \<open>Lines 209 to 232: the frame that is written, from the new data and what the
  sheet held.\<close>

definition reconcile :: "pandas \<Rightarrow> frame \<Rightarrow> frame \<Rightarrow> error + frame" where
  "reconcile L df existing_df =
     (let final_df = combine df (drop_duplicate_dates df existing_df)
      in if ''date'' \<in> set (columns final_df) then sort_values_desc L ''date'' final_df
         else Inr final_df)"

text \<open>Lines 247 to 263: nothing that the formatting raises leaves the function.\<close>

definition format_sheet_header :: "env \<Rightarrow> world \<Rightarrow> world" where
  "format_sheet_header env w =
     (case format_err env of
        Some e \<Rightarrow> logged [LogWarning ''Header formatting failed''] w
      | None \<Rightarrow>
          (case resize_err env of
             Some e \<Rightarrow> logged [FormatHeader, LogWarning ''Header formatting failed''] w
           | None \<Rightarrow> logged [FormatHeader, AutoResize] w))"

text \<open>The \<^verbatim>\<open>try\<close> block of lines 193 to 241.\<close>

definition update_body ::
  "pandas \<Rightarrow> env \<Rightarrow> frame \<Rightarrow> string option \<Rightarrow> world \<Rightarrow> (error + unit) \<times> world" where
  "update_body L env df worksheet_name w =
     (case open_err env of
        Some e \<Rightarrow> (Inl e, w)
      | None \<Rightarrow>
          (case select_worksheet env worksheet_name w of
             (Inl e, w1) \<Rightarrow> (Inl e, w1)
           | (Inr worksheet, w1) \<Rightarrow>
               (case get_existing_sheet_data env worksheet w1 of
                  (existing_df, w2) \<Rightarrow>
                    (case reconcile L df existing_df of
                       Inl e \<Rightarrow> (Inl e, w2)
                     | Inr final_df \<Rightarrow>
                         (case clear_err env of
                            Some e \<Rightarrow> (Inl e, w2)
                          | None \<Rightarrow>
                              (let w3 = logged [Clear] (set_content worksheet DataFrame_empty w2)
                               in case write_err env of
                                    Some e \<Rightarrow> (Inl e, w3)
                                  | None \<Rightarrow>
                                      (let w4 = logged [Write final_df]
                                                  (set_content worksheet final_df w3)
                                       in (Inr (), format_sheet_header env w4))))))))"

text \<open>Lines 187 to 245.\<close>

definition update_google_sheet ::
  "pandas \<Rightarrow> env \<Rightarrow> frame \<Rightarrow> string option \<Rightarrow> world \<Rightarrow> (error + unit) \<times> world" where
  "update_google_sheet L env df worksheet_name w =
     (if df_empty df then (Inr (), logged [LogWarning ''No data to update''] w)
      else (case update_body L env df worksheet_name w of
              (Inl e, w') \<Rightarrow> (Inl e, logged [LogError ''Error updating Google Sheet''] w')
            | (Inr u, w') \<Rightarrow> (Inr u, w')))"

section \<open>sync\_data\<close>

text \<open>Lines 265 to 289.\<close>

definition sync_data ::
  "pandas \<Rightarrow> string \<Rightarrow> env \<Rightarrow> string list option \<Rightarrow> string list option \<Rightarrow> string option
     \<Rightarrow> world \<Rightarrow> (error + unit) \<times> world" where
  "sync_data L now env dimensions metrics worksheet_name w =
     (let raised = (\<lambda>e w'. (Inl e, logged [LogError ''Sync failed''] w'))
      in case setup_err env of
           Some e \<Rightarrow> raised e w
         | None \<Rightarrow>
             (case fetch_ga4_data L now env dimensions metrics w of
                (Inl e, w1) \<Rightarrow> raised e w1
              | (Inr df, w1) \<Rightarrow>
                  if df_empty df then (Inr (), w1)
                  else (case update_google_sheet L env df worksheet_name w1 of
                          (Inl e, w2) \<Rightarrow> raised e w2
                        | (Inr u, w2) \<Rightarrow> (Inr u, w2))))"

section \<open>A library instance and sample data\<close>

text \<open>
  A reader of plain decimal literals (an optional minus sign, digits, an optional
  fraction), on which it agrees with \<^verbatim>\<open>pd.to_numeric\<close>; a date reader that knows the
  compact form only; and a stable kernel (insertion sort by key).
\<close>

definition unsigned_decimal :: "string \<Rightarrow> rat option" where
  "unsigned_decimal s =
     (let whole = takeWhile is_digit s; rest = dropWhile is_digit s
      in if whole = [] then None
         else (case rest of
                 [] \<Rightarrow> Some (of_nat (nat_of_digits whole))
               | c # fraction \<Rightarrow>
                   if c = CHR ''.'' \<and> fraction \<noteq> [] \<and> list_all is_digit fraction
                   then Some (of_nat (nat_of_digits whole)
                              + of_nat (nat_of_digits fraction) / 10 ^ length fraction)
                   else None))"

definition decimal_reader :: "string \<Rightarrow> cell option" where
  "decimal_reader s =
     (case s of
        [] \<Rightarrow> None
      | c # t \<Rightarrow>
          if c = CHR ''-'' then map_option (\<lambda>q. Num (- q)) (unsigned_decimal t)
          else map_option Num (unsigned_decimal s))"

definition stable_kernel :: "(cell \<times> row) list \<Rightarrow> (cell \<times> row) list" where
  "stable_kernel = sort_key (\<lambda>p. sort_rank (fst p))"

definition sample_pandas :: pandas where
  "sample_pandas =
     \<lparr>to_number = decimal_reader, strptime_other = (\<lambda>c. None), argsort = stable_kernel\<rparr>"

text \<open>Three rows as the reporting API returns them: a good day, a day that is not in
  the calendar with a negative count and a rate that is not a number, and a good day
  with a count that is not a number.\<close>

definition sample_dimensions :: "string list" where
  "sample_dimensions = [''date'', ''country'']"

definition sample_metrics :: "string list" where
  "sample_metrics = [''sessions'', ''bounceRate'']"

definition sample_response :: "(string list \<times> string list) list" where
  "sample_response =
     [([''20240315'', ''US''], [''12'', ''0.12346'']),
      ([''20240230'', ''DE''], [''-5'', ''n/a'']),
      ([''20240314'', ''FR''], [''n/a'', ''0.5''])]"

definition sample_raw :: frame where
  "sample_raw =
     \<lparr>columns = sample_dimensions @ sample_metrics,
      rows = map (\<lambda>(dvs, mvs). row_of (sample_dimensions @ sample_metrics) (dvs @ mvs))
               sample_response\<rparr>"

text \<open>The services when nothing fails, with the three rows as the report; and a
  spreadsheet whose first sheet holds two days, one of them also in the report.\<close>

definition sample_env :: env where
  "sample_env =
     \<lparr>setup_err = None, report = Inr sample_response, open_err = None, worksheet_err = None,
      add_err = None, read_err = None, clear_err = None, write_err = None, format_err = None,
      resize_err = None\<rparr>"

definition day_row :: "string \<Rightarrow> string \<Rightarrow> rat \<Rightarrow> row" where
  "day_row day country sessions =
     (\<lambda>c. NaN)(''date'' := Str day, ''country'' := Str country, ''sessions'' := Num sessions)"

definition sample_sheet :: frame where
  "sample_sheet =
     \<lparr>columns = [''date'', ''country'', ''sessions''],
      rows = [day_row ''2024-03-15'' ''US'' 3, day_row ''2024-03-13'' ''US'' 7,
              day_row ''2024-03-15'' ''FR'' 1]\<rparr>"

text \<open>A formatted frame of three rows in the order of the report, two of them of one
  day.\<close>

definition sample_new :: frame where
  "sample_new =
     \<lparr>columns = [''date'', ''country'', ''sessions''],
      rows = [day_row ''2024-03-14'' ''US'' 5, day_row ''2024-03-15'' ''US'' 4,
              day_row ''2024-03-15'' ''DE'' 2]\<rparr>"

text \<open>The library with the kernel of the default kind; and a formatted frame of twenty
  rows of one day, as a fetch of one day returns them.\<close>

definition numpy_pandas :: pandas where
  "numpy_pandas = sample_pandas\<lparr>argsort := npy_aquicksort\<rparr>"

definition busy_day :: frame where
  "busy_day =
     \<lparr>columns = [''date'', ''country'', ''sessions''],
      rows = map (\<lambda>country. day_row ''2024-03-15'' country 1)
               [''AR'', ''AT'', ''AU'', ''BE'', ''BR'', ''CA'', ''CH'', ''CL'', ''CN'', ''DE'',
                ''DK'', ''ES'', ''FI'', ''FR'', ''GB'', ''IN'', ''IT'', ''JP'', ''MX'', ''US'']\<rparr>"

text \<open>The same rows in another order: the first two and the last in their places, the
  seventeen between them reversed.\<close>

definition busy_day_written :: frame where
  "busy_day_written =
     \<lparr>columns = [''date'', ''country'', ''sessions''],
      rows = map (\<lambda>country. day_row ''2024-03-15'' country 1)
               [''AR'', ''AT'', ''MX'', ''JP'', ''IT'', ''IN'', ''GB'', ''FR'', ''FI'', ''ES'',
                ''DK'', ''DE'', ''CN'', ''CL'', ''CH'', ''CA'', ''BR'', ''BE'', ''AU'', ''US'']\<rparr>"

definition sample_world :: world where
  "sample_world = \<lparr>sheet1 = sample_sheet, tabs = Map.empty, journal = []\<rparr>"

definition blank_world :: world where
  "blank_world = \<lparr>sheet1 = DataFrame_empty, tabs = Map.empty, journal = []\<rparr>"

text \<open>The frame of \<open>sample_new\<close> in descending order of the dates.\<close>

definition sample_sorted :: frame where
  "sample_sorted =
     \<lparr>columns = [''date'', ''country'', ''sessions''],
      rows = [day_row ''2024-03-15'' ''US'' 4, day_row ''2024-03-15'' ''DE'' 2,
              day_row ''2024-03-14'' ''US'' 5]\<rparr>"

section \<open>Notions used in the statements\<close>

text \<open>What lines 155 to 158 do to one cell of the column of a metric.\<close>

definition conv :: "pandas \<Rightarrow> string \<Rightarrow> cell \<Rightarrow> cell" where
  "conv L metric c =
     (if metric \<in> set [''bounceRate'', ''averageSessionDuration'']
      then round4 (to_numeric L c) else fillna0 (to_numeric L c))"

definition whole_number :: "cell \<Rightarrow> bool" where
  "whole_number c = (case c of Num q \<Rightarrow> q = of_int \<lfloor>q\<rfloor> | _ \<Rightarrow> False)"

definition non_negative :: "cell \<Rightarrow> bool" where
  "non_negative c = (case c of Num q \<Rightarrow> 0 \<le> q | _ \<Rightarrow> False)"

definition finite_number :: "cell \<Rightarrow> bool" where
  "finite_number c = (case c of Num q \<Rightarrow> True | _ \<Rightarrow> False)"

definition four_decimals :: "cell \<Rightarrow> bool" where
  "four_decimals c = (case c of Num q \<Rightarrow> q * 10000 = of_int \<lfloor>q * 10000\<rfloor> | _ \<Rightarrow> False)"

text \<open>The hyphenated form of a text of eight characters.\<close>

definition hyphenated :: "string \<Rightarrow> string" where
  "hyphenated s = take 4 s @ ''-'' @ take 2 (drop 4 s) @ ''-'' @ drop 6 s"

text \<open>Two frames with the same columns whose rows differ at most in column \<open>c\<close>.\<close>

definition agree_off :: "string \<Rightarrow> frame \<Rightarrow> frame \<Rightarrow> bool" where
  "agree_off c df1 df2 \<longleftrightarrow>
     columns df1 = columns df2 \<and>
     list_all2 (\<lambda>r1 r2. \<forall>m. m \<noteq> c \<longrightarrow> r1 m = r2 m) (rows df1) (rows df2)"

text \<open>A list of keys in descending order, the missing keys last.\<close>

definition non_increasing :: "cell list \<Rightarrow> bool" where
  "non_increasing ks = sorted_wrt (\<lambda>a b. sort_rank b \<le> sort_rank a) ks"

text \<open>A sort kernel that keeps the pairs of one key in the order it found them, which
  the \<^verbatim>\<open>kind='stable'\<close> kernels do and the default one does not promise.\<close>

definition keeps_ties :: "((cell \<times> row) list \<Rightarrow> (cell \<times> row) list) \<Rightarrow> bool" where
  "keeps_ties srt \<longleftrightarrow>
     (\<forall>xs k. comparable (map fst xs) \<and> NaN \<notin> set (map fst xs) \<longrightarrow>
        filter (\<lambda>p. fst p = k) (srt xs) = filter (\<lambda>p. fst p = k) xs)"

text \<open>The rows of a frame that have the date \<open>d\<close>, in their order.\<close>

definition rows_of_date :: "cell \<Rightarrow> frame \<Rightarrow> row list" where
  "rows_of_date d df = filter (\<lambda>r. r ''date'' = d) (rows df)"

section \<open>Lemmas on the formatting of a fetched frame\<close>

lemma floor_rat_numeral: "\<lfloor>numeral a / numeral b :: rat\<rfloor> = numeral a div numeral b"
  using floor_divide_of_int_eq[of "numeral a" "numeral b", where ?'a = rat] by simp

lemma floor_rat_neg_numeral: "\<lfloor>- (numeral a / numeral b) :: rat\<rfloor> = - numeral a div numeral b"
  using floor_divide_of_int_eq[of "- numeral a" "numeral b", where ?'a = rat] by simp

lemma columns_set_column [simp]: "columns (set_column c f df) = columns df"
  by (simp add: set_column_def)

lemma column_set_column_same [simp]: "column c (set_column c f df) = map f (column c df)"
  by (simp add: set_column_def column_def)

lemma column_set_column_other [simp]: "m \<noteq> c \<Longrightarrow> column m (set_column c f df) = column m df"
  by (simp add: set_column_def column_def)

lemma length_rows_set_column [simp]: "length (rows (set_column c f df)) = length (rows df)"
  by (simp add: set_column_def)

lemma df_empty_set_column [simp]: "df_empty (set_column c f df) = df_empty df"
  by (simp add: set_column_def df_empty_def)

lemma columns_format_date [simp]: "columns (format_date L df) = columns df"
  by (simp add: format_date_def)

lemma column_format_date_other: "m \<noteq> ''date'' \<Longrightarrow> column m (format_date L df) = column m df"
  by (simp add: format_date_def)

lemma column_format_date:
  "''date'' \<in> set (columns df) \<Longrightarrow>
   column ''date'' (format_date L df) = map (\<lambda>c. strftime (to_datetime L c)) (column ''date'' df)"
  by (simp add: format_date_def)

lemma to_numeric_not_Str: "to_numeric L c \<noteq> Str s"
  by (auto simp: to_numeric_def split: cell.splits option.splits)

lemma to_numeric_idem: "to_numeric L c = c" if "\<And>s. c \<noteq> Str s"
  using that by (cases c) (auto simp: to_numeric_def)

lemma round_half_even_of_int [simp]: "round_half_even (of_int k) = k"
  by (simp add: round_half_even_def)

lemma round4_idem: "round4 (round4 c) = round4 c"
  by (cases c) (simp_all add: round4_def)

lemma fillna0_idem: "fillna0 (fillna0 c) = fillna0 c"
  by (cases c) (simp_all add: fillna0_def)

lemma conv_not_Str: "conv L m c \<noteq> Str s"
  using to_numeric_not_Str[of L c] 
  by (cases "to_numeric L c") (auto simp: conv_def round4_def fillna0_def)

lemma conv_ratio:
  "m \<in> set [''bounceRate'', ''averageSessionDuration''] \<Longrightarrow>
   conv L m = (\<lambda>c. round4 (to_numeric L c))"
  by (rule ext) (simp add: conv_def)

lemma conv_count:
  "m \<notin> set [''bounceRate'', ''averageSessionDuration''] \<Longrightarrow>
   conv L m = (\<lambda>c. fillna0 (to_numeric L c))"
  by (rule ext) (simp add: conv_def)

lemma conv_idem: "conv L m (conv L m c) = conv L m c"
proof -
  have *: "to_numeric L (conv L m c) = conv L m c"
    by (rule to_numeric_idem) (rule conv_not_Str)
  show ?thesis
  proof (cases "m \<in> set [''bounceRate'', ''averageSessionDuration'']")
    case True
    with * show ?thesis by (simp add: conv_ratio round4_idem)
  next
    case False
    with * show ?thesis by (simp add: conv_count fillna0_idem)
  qed
qed

lemma convert_metric_Inr:
  assumes "convert_metric L m df = Inr df'"
  shows "m \<in> set (columns df)" and "df' = set_column m (conv L m) df"
proof -
  from assms show "m \<in> set (columns df)"
    by (auto simp: convert_metric_def split: if_splits)
  show "df' = set_column m (conv L m) df"
  proof (cases "m \<in> set [''bounceRate'', ''averageSessionDuration'']")
    case True
    with assms show ?thesis
      by (simp add: convert_metric_def conv_ratio[OF True] split: if_splits)
  next
    case False
    with assms show ?thesis
      by (simp add: convert_metric_def conv_count[OF False] Let_def split: if_splits)
  qed
qed

lemma convert_metrics_columns:
  "convert_metrics L ms df = Inr out \<Longrightarrow> columns out = columns df"
proof (induction ms arbitrary: df)
  case Nil
  then show ?case by simp
next
  case (Cons m ms)
  then show ?case
    by (auto split: sum.splits dest!: convert_metric_Inr(2))
qed

lemma convert_metrics_subset:
  "convert_metrics L ms df = Inr out \<Longrightarrow> set ms \<subseteq> set (columns df)"
proof (induction ms arbitrary: df)
  case Nil
  then show ?case by simp
next
  case (Cons m ms)
  from Cons.prems obtain df' where 1: "convert_metric L m df = Inr df'"
    and 2: "convert_metrics L ms df' = Inr out"
    by (auto split: sum.splits)
  from Cons.IH[OF 2] convert_metric_Inr[OF 1] show ?case by simp
qed

lemma convert_metrics_other:
  "convert_metrics L ms df = Inr out \<Longrightarrow> m \<notin> set ms \<Longrightarrow> column m out = column m df"
proof (induction ms arbitrary: df)
  case Nil
  then show ?case by simp
next
  case (Cons a ms)
  from Cons.prems obtain df' where 1: "convert_metric L a df = Inr df'"
    and 2: "convert_metrics L ms df' = Inr out"
    by (auto split: sum.splits)
  from Cons.prems have "m \<noteq> a" "m \<notin> set ms" by auto
  with Cons.IH[OF 2] convert_metric_Inr(2)[OF 1] show ?case by simp
qed

lemma convert_metrics_column:
  "convert_metrics L ms df = Inr out \<Longrightarrow> m \<in> set ms \<Longrightarrow>
   column m out = map (conv L m) (column m df)"
proof (induction ms arbitrary: df)
  case Nil
  then show ?case by simp
next
  case (Cons a ms)
  from Cons.prems obtain df' where 1: "convert_metric L a df = Inr df'"
    and 2: "convert_metrics L ms df' = Inr out"
    by (auto split: sum.splits)
  note df' = convert_metric_Inr(2)[OF 1]
  show ?case
  proof (cases "m \<in> set ms")
    case True
    from Cons.IH[OF 2 True] show ?thesis
      by (cases "m = a") (simp_all add: df' conv_idem)
  next
    case False
    with Cons.prems have "m = a" by simp
    with convert_metrics_other[OF 2 False] show ?thesis by (simp add: df')
  qed
qed

lemma insert_column_Inr:
  assumes "insert_column loc name v df = Inr out"
  shows "name \<notin> set (columns df)"
    and "set (columns out) = insert name (set (columns df))"
    and "m \<noteq> name \<Longrightarrow> column m out = column m df"
    and "length (rows out) = length (rows df)"
proof -
  from assms have n: "name \<notin> set (columns df)" and l: "loc \<le> length (columns df)"
    and out: "out = \<lparr>columns = take loc (columns df) @ [name] @ drop loc (columns df),
                rows = map (\<lambda>r. r(name := v)) (rows df)\<rparr>"
    by (auto simp: insert_column_def split: if_splits)
  show "name \<notin> set (columns df)" by (rule n)
  have "set (take loc (columns df)) \<union> set (drop loc (columns df)) = set (columns df)"
    by (metis append_take_drop_id set_append)
  then show "set (columns out) = insert name (set (columns df))"
    by (auto simp: out)
  show "m \<noteq> name \<Longrightarrow> column m out = column m df"
    by (simp add: out column_def)
  show "length (rows out) = length (rows df)" by (simp add: out)
qed

text \<open>The shape of a successful run on a frame that is not empty.\<close>

lemma format_dataframe_Inr:
  assumes "format_dataframe L now df dims mets = Inr out" and "\<not> df_empty df"
  obtains df2 df3 where
    "convert_metrics L mets (format_date L df) = Inr df2"
    "insert_column 0 ''last_updated'' (Str now) df2 = Inr df3"
    "insert_column 1 ''data_freshness'' (Str ''live'') df3 = Inr out"
  using assms by (auto simp: format_dataframe_def split: sum.splits)

lemma format_dataframe_metric_column:
  assumes ok: "format_dataframe L now df dims mets = Inr out"
    and ne: "\<not> df_empty df" and m: "m \<in> set mets"
  shows "column m out = map (conv L m) (column m (format_date L df))"
proof -
  from ok ne obtain df2 df3 where
    2: "convert_metrics L mets (format_date L df) = Inr df2" and
    3: "insert_column 0 ''last_updated'' (Str now) df2 = Inr df3" and
    4: "insert_column 1 ''data_freshness'' (Str ''live'') df3 = Inr out"
    by (rule format_dataframe_Inr)
  from convert_metrics_subset[OF 2] convert_metrics_columns[OF 2] m
  have mc: "m \<in> set (columns df2)" by auto
  with insert_column_Inr(1)[OF 3] have m1: "m \<noteq> ''last_updated''" by auto
  from mc insert_column_Inr(2)[OF 3] have "m \<in> set (columns df3)" by simp
  with insert_column_Inr(1)[OF 4] have m2: "m \<noteq> ''data_freshness''" by auto
  have "column m out = column m df2"
    using insert_column_Inr(3)[OF 4 m2] insert_column_Inr(3)[OF 3 m1] by simp
  with convert_metrics_column[OF 2 m] show ?thesis by simp
qed

lemma format_dataframe_date_column:
  assumes ok: "format_dataframe L now df dims mets = Inr out"
    and ne: "\<not> df_empty df" and d: "''date'' \<in> set (columns df)" and m: "''date'' \<notin> set mets"
  shows "column ''date'' out = map (\<lambda>c. strftime (to_datetime L c)) (column ''date'' df)"
proof -
  from ok ne obtain df2 df3 where
    2: "convert_metrics L mets (format_date L df) = Inr df2" and
    3: "insert_column 0 ''last_updated'' (Str now) df2 = Inr df3" and
    4: "insert_column 1 ''data_freshness'' (Str ''live'') df3 = Inr out"
    by (rule format_dataframe_Inr)
  have "column ''date'' out = column ''date'' df2"
    using insert_column_Inr(3)[OF 4, of "''date''"] insert_column_Inr(3)[OF 3, of "''date''"] by simp
  with convert_metrics_other[OF 2 m] column_format_date[OF d] show ?thesis by simp
qed

lemma convert_metric_count_ok:
  assumes "convert_metric L m df = Inr df'" and "m \<notin> set [''bounceRate'', ''averageSessionDuration'']"
  shows "list_all int64_ok (column m df')"
  using assms by (auto simp: convert_metric_def Let_def split: if_splits)

lemma convert_metrics_count_ok:
  "convert_metrics L ms df = Inr out \<Longrightarrow> m \<in> set ms \<Longrightarrow>
   m \<notin> set [''bounceRate'', ''averageSessionDuration''] \<Longrightarrow> list_all int64_ok (column m out)"
proof (induction ms arbitrary: df)
  case Nil
  then show ?case by simp
next
  case (Cons a ms)
  from Cons.prems obtain df' where 1: "convert_metric L a df = Inr df'"
    and 2: "convert_metrics L ms df' = Inr out"
    by (auto split: sum.splits)
  show ?case
  proof (cases "m \<in> set ms")
    case True
    from Cons.IH[OF 2 True Cons.prems(3)] show ?thesis .
  next
    case False
    with Cons.prems have ma: "m = a" by simp
    from convert_metric_count_ok[OF 1] Cons.prems(3) ma
    have "list_all int64_ok (column m df')" by simp
    with convert_metrics_other[OF 2 False] show ?thesis by simp
  qed
qed

lemma format_dataframe_count_ok:
  assumes ok: "format_dataframe L now df dims mets = Inr out"
    and ne: "\<not> df_empty df" and m: "m \<in> set mets"
    and c: "m \<notin> set [''bounceRate'', ''averageSessionDuration'']"
  shows "list_all int64_ok (column m out)"
proof -
  from ok ne obtain df2 df3 where
    2: "convert_metrics L mets (format_date L df) = Inr df2" and
    3: "insert_column 0 ''last_updated'' (Str now) df2 = Inr df3" and
    4: "insert_column 1 ''data_freshness'' (Str ''live'') df3 = Inr out"
    by (rule format_dataframe_Inr)
  from convert_metrics_subset[OF 2] convert_metrics_columns[OF 2] m
  have mc: "m \<in> set (columns df2)" by auto
  with insert_column_Inr(1)[OF 3] have m1: "m \<noteq> ''last_updated''" by auto
  from mc insert_column_Inr(2)[OF 3] have "m \<in> set (columns df3)" by simp
  with insert_column_Inr(1)[OF 4] have m2: "m \<noteq> ''data_freshness''" by auto
  have "column m out = column m df2"
    using insert_column_Inr(3)[OF 4 m2] insert_column_Inr(3)[OF 3 m1] by simp
  with convert_metrics_count_ok[OF 2 m c] show ?thesis by simp
qed

lemma count_cell:
  assumes "int64_ok (fillna0 (to_numeric L src))"
  shows "whole_number (fillna0 (to_numeric L src))"
    and "src = NaN \<Longrightarrow> fillna0 (to_numeric L src) = Num 0"
    and "src = Str s \<Longrightarrow> to_number L s = None \<Longrightarrow> fillna0 (to_numeric L src) = Num 0"
  using assms
  by (auto simp: int64_ok_def whole_number_def fillna0_def to_numeric_def split: cell.splits option.splits)

subsection \<open>Evaluating the sample\<close>

lemmas reader_defs = decimal_reader_def unsigned_decimal_def is_digit_def digits_def
  nat_of_digits_def digit_val_def

lemmas date_defs = strftime_def to_datetime_def compact_form_def compact_date_def is_digit_def
  nat_of_digits_def digit_val_def valid_date_def days_in_month_def pad2_def pad4_def
  digit_char_def leap_year_def digits_def

lemmas sample_defs = sample_raw_def sample_dimensions_def sample_metrics_def sample_response_def
  sample_pandas_def row_of_def

lemma sample_not_empty: "\<not> df_empty sample_raw"
  by (simp add: df_empty_def sample_defs)

lemma sample_sessions: "column ''sessions'' sample_raw = [Str ''12'', Str ''-5'', Str ''n/a'']"
  by (simp add: column_def sample_defs)

lemma sample_bounce: "column ''bounceRate'' sample_raw = [Str ''0.12346'', Str ''n/a'', Str ''0.5'']"
  by (simp add: column_def sample_defs)

lemma sample_date: "column ''date'' sample_raw = [Str ''20240315'', Str ''20240230'', Str ''20240314'']"
  by (simp add: column_def sample_defs)

lemma sample_numeric:
  "to_numeric sample_pandas (Str ''12'') = Num 12"
  "to_numeric sample_pandas (Str ''-5'') = Num (- 5)"
  "to_numeric sample_pandas (Str ''n/a'') = NaN"
  "to_numeric sample_pandas (Str ''0.5'') = Num (1 / 2)"
  "to_numeric sample_pandas (Str ''0.12346'') = Num (6173 / 50000)"
  by (simp_all add: to_numeric_def sample_pandas_def reader_defs)

lemma sample_round:
  "round4 (Num (1 / 2)) = Num (1 / 2)"
  "round4 (Num (6173 / 50000)) = Num (247 / 2000)"
  "round4 NaN = NaN"
  by (simp_all add: round4_def round_half_even_def Let_def floor_rat_numeral)

lemma convert_metric_eq:
  "convert_metric L m df =
     (if m \<notin> set (columns df) then Inl (KeyError m)
      else if m \<in> set [''bounceRate'', ''averageSessionDuration'']
      then Inr (set_column m (conv L m) df)
      else if list_all int64_ok (map (conv L m) (column m df))
      then Inr (set_column m (conv L m) df) else Inl TypeError)"
proof (cases "m \<in> set [''bounceRate'', ''averageSessionDuration'']")
  case True
  then show ?thesis by (simp add: convert_metric_def conv_ratio[OF True])
next
  case False
  then show ?thesis by (simp add: convert_metric_def conv_count[OF False] Let_def)
qed

lemma sample_columns: "columns sample_raw = [''date'', ''country'', ''sessions'', ''bounceRate'']"
  by (simp add: sample_defs)

lemma sample_formats:
  "\<exists>out. format_dataframe sample_pandas now sample_raw sample_dimensions sample_metrics = Inr out"
  by (simp add: format_dataframe_def sample_not_empty convert_metric_eq sample_columns
      sample_metrics_def column_format_date_other sample_sessions conv_def sample_numeric
      fillna0_def int64_ok_def insert_column_def)

text \<open>A count that is a number and not a whole one stops the formatting: the revenue
  \<^verbatim>\<open>12.34\<close> under a metric that is converted to \<^verbatim>\<open>Int64\<close>.\<close>

lemma fractional_count_raises:
  "convert_metric sample_pandas ''totalRevenue''
     \<lparr>columns = [''totalRevenue''], rows = [row_of [''totalRevenue''] [''12.34'']]\<rparr>
   = Inl TypeError"
proof -
  have "to_numeric sample_pandas (Str ''12.34'') = Num (617 / 50)"
    by (simp add: to_numeric_def sample_pandas_def reader_defs)
  then show ?thesis
    by (simp add: convert_metric_eq column_def row_of_def conv_def fillna0_def int64_ok_def
        floor_rat_numeral)
qed

subsection \<open>Digits and dates\<close>

lemma digit_roundtrip: "is_digit c \<Longrightarrow> digit_char (digit_val c) = c"
  by (auto simp: is_digit_def digit_char_def digit_val_def digits_def)

lemma digit_val_lt: "is_digit c \<Longrightarrow> digit_val c < 10"
  by (auto simp: is_digit_def digit_char_def digit_val_def digits_def)

lemma shift_digit:
  fixes x d :: nat
  assumes "d < 10"
  shows "(10 * x + d) div 10 = x" and "(10 * x + d) mod 10 = d"
  using assms by simp_all

lemma four_digits:
  fixes a b c d :: nat
  assumes "a < 10" "b < 10" "c < 10" "d < 10"
  shows "(10 * (10 * (10 * a + b) + c) + d) div 1000 mod 10 = a"
    and "(10 * (10 * (10 * a + b) + c) + d) div 100 mod 10 = b"
    and "(10 * (10 * (10 * a + b) + c) + d) div 10 mod 10 = c"
    and "(10 * (10 * (10 * a + b) + c) + d) mod 10 = d"
proof -
  let ?n = "10 * (10 * (10 * a + b) + c) + d"
  have h100: "m div 100 = m div 10 div 10" for m :: nat
    by (simp add: div_mult2_eq[symmetric])
  have h1000: "m div 1000 = m div 10 div 10 div 10" for m :: nat
    by (simp add: div_mult2_eq[symmetric])
  have n1: "?n div 10 = 10 * (10 * a + b) + c"
    by (rule shift_digit(1)) (rule assms(4))
  have n2: "(10 * (10 * a + b) + c) div 10 = 10 * a + b"
    by (rule shift_digit(1)) (rule assms(3))
  have n3: "(10 * a + b) div 10 = a"
    by (rule shift_digit(1)) (rule assms(2))
  show "?n div 1000 mod 10 = a"
    unfolding h1000 n1 n2 n3 using assms(1) by simp
  show "?n div 100 mod 10 = b"
    unfolding h100 n1 n2 by (rule shift_digit(2)) (rule assms(2))
  show "?n div 10 mod 10 = c"
    unfolding n1 by (rule shift_digit(2)) (rule assms(3))
  show "?n mod 10 = d"
    by (rule shift_digit(2)) (rule assms(4))
qed

lemma pad4_roundtrip:
  "is_digit a \<Longrightarrow> is_digit b \<Longrightarrow> is_digit c \<Longrightarrow> is_digit d \<Longrightarrow>
   pad4 (nat_of_digits [a, b, c, d]) = [a, b, c, d]"
  using four_digits[OF digit_val_lt[of a] digit_val_lt[of b] digit_val_lt[of c] digit_val_lt[of d]]
  by (simp add: pad4_def nat_of_digits_def digit_roundtrip)

lemma pad2_roundtrip: "is_digit a \<Longrightarrow> is_digit b \<Longrightarrow> pad2 (nat_of_digits [a, b]) = [a, b]"
  using digit_val_lt[of a] digit_val_lt[of b]
  by (simp add: pad2_def nat_of_digits_def digit_roundtrip)

lemma strftime_compact:
  assumes "compact_form s"
  shows "strftime (Some (compact_date s)) = Str (hyphenated s)"
proof -
  from assms obtain a b c d e f g h where s: "s = [a, b, c, d, e, f, g, h]"
    by (auto simp: compact_form_def length_Suc_conv numeral_eq_Suc)
  with assms have dg: "is_digit a" "is_digit b" "is_digit c" "is_digit d"
    "is_digit e" "is_digit f" "is_digit g" "is_digit h"
    by (simp_all add: compact_form_def)
  show ?thesis
    by (simp add: s strftime_def compact_date_def hyphenated_def pad4_roundtrip pad2_roundtrip dg)
qed

lemma date_cell:
  "src = Str s \<Longrightarrow> compact_form s \<Longrightarrow> valid_date (compact_date s) \<Longrightarrow>
     strftime (to_datetime L src) = Str (hyphenated s)"
  "to_datetime L src = None \<Longrightarrow> strftime (to_datetime L src) = NaN"
  by (simp_all add: to_datetime_def strftime_compact) (simp add: strftime_def)

subsection \<open>The date cells do not decide whether the batch fails\<close>

lemma agree_off_set_column_same: "agree_off c (set_column c f df) (set_column c g df)"
  by (simp add: agree_off_def set_column_def list_all2_map1 list_all2_map2 list_all2_same)

lemma agree_off_set_column_left: "agree_off c (set_column c f df) df"
  by (simp add: agree_off_def set_column_def list_all2_map1 list_all2_same)

lemma agree_off_refl: "agree_off c df df"
  by (simp add: agree_off_def list_all2_same)

lemma agree_off_trans: "agree_off c a b \<Longrightarrow> agree_off c b d \<Longrightarrow> agree_off c a d"
  unfolding agree_off_def
  by (auto simp: list_all2_conv_all_nth)

lemma agree_off_sym: "agree_off c a b \<Longrightarrow> agree_off c b a"
  unfolding agree_off_def
  by (auto simp: list_all2_conv_all_nth)

lemma agree_off_column:
  assumes "agree_off c df1 df2" and "m \<noteq> c"
  shows "column m df1 = column m df2"
proof -
  have "list_all2 (\<lambda>r1 r2. r1 m = r2 m) (rows df1) (rows df2)"
    using assms unfolding agree_off_def
    by (auto elim: list_all2_mono)
  then have "map (\<lambda>r. r m) (rows df1) = map (\<lambda>r. r m) (rows df2)"
    by (induction rule: list_all2_induct) simp_all
  then show ?thesis by (simp add: column_def)
qed

lemma agree_off_set_column:
  "agree_off c df1 df2 \<Longrightarrow> m \<noteq> c \<Longrightarrow> agree_off c (set_column m f df1) (set_column m f df2)"
  unfolding agree_off_def set_column_def
  by (auto simp: list_all2_conv_all_nth)

lemma agree_off_df_empty: "agree_off c df1 df2 \<Longrightarrow> df_empty df1 = df_empty df2"
  unfolding agree_off_def df_empty_def
  by (auto dest: list_all2_lengthD)

lemma convert_metric_agree:
  assumes "agree_off c df1 df2" and "m \<noteq> c"
  shows "rel_sum (=) (agree_off c) (convert_metric L m df1) (convert_metric L m df2)"
proof -
  have cols: "columns df1 = columns df2" using assms(1) by (simp add: agree_off_def)
  have col: "column m df1 = column m df2" by (rule agree_off_column[OF assms])
  show ?thesis
    by (simp add: convert_metric_eq cols col agree_off_set_column[OF assms])
qed

lemma rel_sum_cases:
  assumes "rel_sum (=) R x y"
  obtains e where "x = Inl e" "y = Inl e" | a b where "x = Inr a" "y = Inr b" "R a b"
  using assms by (cases x; cases y) auto

lemma convert_metrics_agree:
  "agree_off c df1 df2 \<Longrightarrow> c \<notin> set ms \<Longrightarrow>
   rel_sum (=) (agree_off c) (convert_metrics L ms df1) (convert_metrics L ms df2)"
proof (induction ms arbitrary: df1 df2)
  case Nil
  then show ?case by simp
next
  case (Cons m ms)
  then have "m \<noteq> c" "c \<notin> set ms" by auto
  then have "rel_sum (=) (agree_off c) (convert_metric L m df1) (convert_metric L m df2)"
    by (intro convert_metric_agree[OF Cons.prems(1)])
  then show ?case
  proof (cases rule: rel_sum_cases)
    case (1 e)
    then show ?thesis by simp
  next
    case (2 a b)
    with Cons.IH[OF 2(3) \<open>c \<notin> set ms\<close>] show ?thesis by simp
  qed
qed

lemma insert_column_agree:
  assumes "agree_off c df1 df2" and "name \<noteq> c"
  shows "rel_sum (=) (agree_off c) (insert_column loc name v df1) (insert_column loc name v df2)"
  using assms unfolding agree_off_def insert_column_def
  by (auto simp: list_all2_conv_all_nth)

lemma agree_off_format_date:
  assumes "agree_off ''date'' df1 df2"
  shows "agree_off ''date'' (format_date L df1) (format_date L df2)"
proof -
  have cols: "columns df1 = columns df2" using assms by (simp add: agree_off_def)
  show ?thesis
  proof (cases "''date'' \<in> set (columns df1)")
    case True
    have "agree_off ''date'' (format_date L df1) df1"
      by (simp add: format_date_def agree_off_set_column_left agree_off_refl)
    moreover have "agree_off ''date'' df2 (format_date L df2)"
      by (rule agree_off_sym) (simp add: format_date_def agree_off_set_column_left agree_off_refl)
    ultimately show ?thesis using assms by (blast intro: agree_off_trans)
  next
    case False
    with cols assms show ?thesis by (simp add: format_date_def)
  qed
qed

lemma format_dataframe_agree:
  assumes "agree_off ''date'' df1 df2" and "''date'' \<notin> set mets"
  shows "rel_sum (=) (agree_off ''date'')
           (format_dataframe L now df1 dims mets) (format_dataframe L now df2 dims mets)"
proof (cases "df_empty df1")
  case True
  with agree_off_df_empty[OF assms(1)] assms(1) show ?thesis
    by (simp add: format_dataframe_def)
next
  case False
  with agree_off_df_empty[OF assms(1)] have ne: "\<not> df_empty df1" "\<not> df_empty df2" by simp_all
  have "rel_sum (=) (agree_off ''date'')
          (convert_metrics L mets (format_date L df1)) (convert_metrics L mets (format_date L df2))"
    by (rule convert_metrics_agree[OF agree_off_format_date[OF assms(1)] assms(2)])
  then show ?thesis
  proof (cases rule: rel_sum_cases)
    case (1 e)
    with ne show ?thesis by (simp add: format_dataframe_def)
  next
    case outer: (2 a b)
    have "rel_sum (=) (agree_off ''date'')
            (insert_column 0 ''last_updated'' (Str now) a)
            (insert_column 0 ''last_updated'' (Str now) b)"
      by (rule insert_column_agree[OF outer(3)]) simp
    then show ?thesis
    proof (cases rule: rel_sum_cases)
      case (1 e)
      with outer ne show ?thesis by (simp add: format_dataframe_def)
    next
      case inner: (2 a' b')
      have "rel_sum (=) (agree_off ''date'')
              (insert_column 1 ''data_freshness'' (Str ''live'') a')
              (insert_column 1 ''data_freshness'' (Str ''live'') b')"
        by (rule insert_column_agree[OF inner(3)]) simp
      with outer inner ne show ?thesis by (simp add: format_dataframe_def)
    qed
  qed
qed

lemma date_cells_never_fail:
  assumes "''date'' \<notin> set mets"
  shows "isl (format_dataframe L now (set_column ''date'' f df) dims mets)
         = isl (format_dataframe L now df dims mets)"
proof -
  have "rel_sum (=) (agree_off ''date'')
          (format_dataframe L now (set_column ''date'' f df) dims mets)
          (format_dataframe L now df dims mets)"
    by (rule format_dataframe_agree[OF agree_off_set_column_left assms])
  then show ?thesis by (cases rule: rel_sum_cases) simp_all
qed

lemma date_cell_all:
  "(\<forall>s. src = Str s \<and> compact_form s \<and> valid_date (compact_date s)
        \<longrightarrow> strftime (to_datetime L src) = Str (hyphenated s))
   \<and> (to_datetime L src = None \<longrightarrow> strftime (to_datetime L src) = NaN)"
  using date_cell(1)[of src _ L] date_cell(2)[of L src] by blast

lemma sample_dates:
  "strftime (to_datetime sample_pandas (Str ''20240315'')) = Str ''2024-03-15''"
  "strftime (to_datetime sample_pandas (Str ''20240230'')) = NaN"
  "strftime (to_datetime sample_pandas (Str ''20240314'')) = Str ''2024-03-14''"
  by (simp_all add: date_defs)

lemma DataFrame_Inr:
  "DataFrame data cols = Inr df \<Longrightarrow> columns df = cols \<and> length (rows df) = length data"
  by (auto simp: DataFrame_def split: if_splits)

lemma length_rows_format_date [simp]: "length (rows (format_date L df)) = length (rows df)"
  by (simp add: format_date_def)

lemma convert_metrics_length:
  "convert_metrics L ms df = Inr out \<Longrightarrow> length (rows out) = length (rows df)"
proof (induction ms arbitrary: df)
  case Nil
  then show ?case by simp
next
  case (Cons m ms)
  then show ?case
    by (auto split: sum.splits dest!: convert_metric_Inr(2))
qed

lemma format_dataframe_not_empty:
  assumes "format_dataframe L now df dims mets = Inr out" and "\<not> df_empty df"
  shows "\<not> df_empty out"
proof -
  from assms obtain df2 df3 where
    2: "convert_metrics L mets (format_date L df) = Inr df2" and
    3: "insert_column 0 ''last_updated'' (Str now) df2 = Inr df3" and
    4: "insert_column 1 ''data_freshness'' (Str ''live'') df3 = Inr out"
    by (rule format_dataframe_Inr)
  have "length (rows out) = length (rows df)"
    using convert_metrics_length[OF 2] insert_column_Inr(4)[OF 3] insert_column_Inr(4)[OF 4]
    by simp
  moreover have "columns out \<noteq> []"
    using insert_column_Inr(2)[OF 4] by auto
  ultimately show ?thesis using assms(2) by (auto simp: df_empty_def)
qed

lemma ratio_cell:
  "round4 (to_numeric L src) = NaN \<or> round4 (to_numeric L src) = PInf
   \<or> round4 (to_numeric L src) = NInf \<or> four_decimals (round4 (to_numeric L src))"
  "src = NaN \<Longrightarrow> round4 (to_numeric L src) = NaN"
  "src = Str s \<Longrightarrow> to_number L s = None \<Longrightarrow> round4 (to_numeric L src) = NaN"
proof -
  show "round4 (to_numeric L src) = NaN \<or> round4 (to_numeric L src) = PInf
   \<or> round4 (to_numeric L src) = NInf \<or> four_decimals (round4 (to_numeric L src))"
    by (cases "to_numeric L src")
       (simp_all add: round4_def four_decimals_def to_numeric_not_Str)
qed (simp_all add: to_numeric_def round4_def)

section \<open>Lemmas on sorting and reconciling\<close>

lemma sort_rank_NaN_least: "sort_rank NaN \<le> sort_rank k"
  by (cases k) (simp_all add: sort_rank_def)

lemma comparable_cong: "set ks = set ks' \<Longrightarrow> comparable ks = comparable ks'"
  by (simp add: comparable_def list_all_iff)

lemma stable_kernel_sorts: "sorts stable_kernel"
  by (simp add: sorts_def stable_kernel_def)

lemma sort_rank_inj [simp]: "sort_rank a = sort_rank b \<longleftrightarrow> a = b"
  by (cases a; cases b) (simp_all add: sort_rank_def)

lemma stable_kernel_keeps_ties: "keeps_ties stable_kernel"
proof -
  have "filter (\<lambda>p. fst p = k) (sort_key (\<lambda>p. sort_rank (fst p)) xs)
        = filter (\<lambda>p. fst p = k) xs" for k and xs :: "(cell \<times> row) list"
    using sort_key_stable[of "\<lambda>p. sort_rank (fst p)" "sort_rank k" xs] by simp
  then show ?thesis by (simp add: keeps_ties_def stable_kernel_def)
qed

lemma keyed_split:
  "mset (filter (\<lambda>p. fst p \<noteq> NaN) xs) + mset (filter (\<lambda>p. fst p = NaN) xs) = mset xs"
  by (induction xs) simp_all

lemma sorted_wrt_all:
  "(\<And>x y. x \<in> set xs \<Longrightarrow> y \<in> set xs \<Longrightarrow> R x y) \<Longrightarrow> sorted_wrt R xs"
  by (induction xs) auto

text \<open>The parts of a sort that went through.\<close>

lemma sort_values_desc_Inr:
  assumes "sort_values_desc L c df = Inr out"
  shows "comparable (map fst (filter (\<lambda>p. fst p \<noteq> NaN) (map (\<lambda>r. (r c, r)) (rows df))))"
    and "rows out =
           map snd (rev (argsort L (rev (filter (\<lambda>p. fst p \<noteq> NaN)
                                            (map (\<lambda>r. (r c, r)) (rows df))))))
           @ map snd (filter (\<lambda>p. fst p = NaN) (map (\<lambda>r. (r c, r)) (rows df)))"
    and "columns out = columns df"
  using assms by (auto simp: sort_values_desc_def Let_def split: if_splits)

lemma sort_values_desc_sorted:
  assumes ok: "sort_values_desc L c df = Inr out" and srt: "sorts (argsort L)"
  shows "mset (rows out) = mset (rows df)" and "non_increasing (column c out)"
proof -
  define keyed where "keyed = map (\<lambda>r. (r c, r)) (rows df)"
  define non_nans where "non_nans = filter (\<lambda>p. fst p \<noteq> NaN) keyed"
  define nans where "nans = filter (\<lambda>p. fst p = NaN) keyed"
  define S where "S = argsort L (rev non_nans)"
  note parts = sort_values_desc_Inr[OF ok, folded keyed_def, folded non_nans_def nans_def,
      folded S_def]
  have cmp: "comparable (map fst (rev non_nans))"
    using parts(1) comparable_cong[of "map fst (rev non_nans)" "map fst non_nans"] by simp
  have nn: "NaN \<notin> set (map fst (rev non_nans))" by (auto simp: non_nans_def)
  from srt cmp nn have mS: "mset S = mset non_nans"
    and sS: "sorted (map (\<lambda>p. sort_rank (fst p)) S)"
    unfolding sorts_def S_def by auto
  have key: "snd p c = fst p" if "p \<in> set keyed" for p
    using that by (auto simp: keyed_def)
  have setS: "set S = set non_nans" using mS by (rule mset_eq_setD)
  have S_keyed: "p \<in> set keyed" if "p \<in> set S" for p
    using that setS by (auto simp: non_nans_def)
  have "mset (rows out) = image_mset snd (mset S) + image_mset snd (mset nans)"
    by (simp add: parts(2))
  also have "\<dots> = image_mset snd (mset non_nans + mset nans)" by (simp add: mS)
  also have "mset non_nans + mset nans = mset keyed"
    unfolding non_nans_def nans_def by (rule keyed_split)
  also have "image_mset snd (mset keyed) = mset (rows df)"
    by (simp add: keyed_def image_mset.compositionality comp_def)
  finally show "mset (rows out) = mset (rows df)" .
  have "map (\<lambda>p. snd p c) S = map fst S"
    by (rule map_cong[OF refl]) (simp add: S_keyed key)
  then have c1: "map (\<lambda>r. r c) (map snd (rev S)) = rev (map fst S)"
    by (simp add: rev_map comp_def)
  have c2: "map (\<lambda>r. r c) (map snd nans) = map fst nans"
    unfolding map_map comp_def by (rule map_cong[OF refl]) (simp add: nans_def key)
  have "column c out = map (\<lambda>r. r c) (map snd (rev S)) @ map (\<lambda>r. r c) (map snd nans)"
    by (simp add: column_def parts(2))
  then have col: "column c out = rev (map fst S) @ map fst nans"
    by (simp only: c1 c2)
  have a: "sorted_wrt (\<lambda>a b. sort_rank b \<le> sort_rank a) (rev (map fst S))"
    using sS by (simp add: sorted_wrt_rev sorted_map sorted_wrt_map)
  have b: "sorted_wrt (\<lambda>a b. sort_rank b \<le> sort_rank a) (map fst nans)"
    by (rule sorted_wrt_all) (auto simp: nans_def)
  have x: "\<forall>k \<in> set (rev (map fst S)). \<forall>n \<in> set (map fst nans). sort_rank n \<le> sort_rank k"
    by (auto simp: nans_def sort_rank_NaN_least)
  show "non_increasing (column c out)"
    unfolding non_increasing_def col sorted_wrt_append using a b x by blast
qed

lemma sort_values_desc_stable:
  assumes ok: "sort_values_desc L c df = Inr out" and st: "keeps_ties (argsort L)"
  shows "filter (\<lambda>r. r c = d) (rows out) = filter (\<lambda>r. r c = d) (rows df)"
proof -
  define keyed where "keyed = map (\<lambda>r. (r c, r)) (rows df)"
  define non_nans where "non_nans = filter (\<lambda>p. fst p \<noteq> NaN) keyed"
  define nans where "nans = filter (\<lambda>p. fst p = NaN) keyed"
  define S where "S = argsort L (rev non_nans)"
  note parts = sort_values_desc_Inr[OF ok, folded keyed_def, folded non_nans_def nans_def,
      folded S_def]
  have cmp: "comparable (map fst (rev non_nans))"
    using parts(1) comparable_cong[of "map fst (rev non_nans)" "map fst non_nans"] by simp
  have nn: "NaN \<notin> set (map fst (rev non_nans))" by (auto simp: non_nans_def)
  from st cmp nn have fS: "filter (\<lambda>p. fst p = k) S = filter (\<lambda>p. fst p = k) (rev non_nans)" for k
    unfolding keeps_ties_def S_def by blast
  have setS: "set S \<subseteq> set keyed"
  proof
    fix p assume "p \<in> set S"
    then have "p \<in> set (filter (\<lambda>q. fst q = fst p) S)" by simp
    then have "p \<in> set (filter (\<lambda>q. fst q = fst p) (rev non_nans))" by (simp only: fS)
    then show "p \<in> set keyed" by (simp add: non_nans_def)
  qed
  have key: "snd p c = fst p" if "p \<in> set keyed" for p
    using that by (auto simp: keyed_def)
  have pick: "filter (\<lambda>r. r c = d) (map snd xs) = map snd (filter (\<lambda>p. fst p = d) xs)"
    if "set xs \<subseteq> set keyed" for xs
    using that
  proof (induction xs)
    case Nil
    then show ?case by simp
  next
    case (Cons p xs)
    then show ?case using key[of p] by simp
  qed
  have rows: "filter (\<lambda>r. r c = d) (rows df) = map snd (filter (\<lambda>p. fst p = d) keyed)"
    by (simp add: keyed_def filter_map comp_def)
  have "filter (\<lambda>r. r c = d) (rows out)
        = map snd (filter (\<lambda>p. fst p = d) (rev S)) @ map snd (filter (\<lambda>p. fst p = d) nans)"
    using pick[of "rev S"] pick[of nans] setS by (simp add: parts(2) nans_def)
  also have "filter (\<lambda>p. fst p = d) (rev S) = filter (\<lambda>p. fst p = d) non_nans"
    by (simp add: rev_filter[symmetric] fS)
  also have "map snd (filter (\<lambda>p. fst p = d) non_nans) @ map snd (filter (\<lambda>p. fst p = d) nans)
             = map snd (filter (\<lambda>p. fst p = d) keyed)"
  proof (cases "d = NaN")
    case True
    then have "filter (\<lambda>p. fst p = d) non_nans = []" "filter (\<lambda>p. fst p = d) nans = filter (\<lambda>p. fst p = d) keyed"
      by (auto simp: non_nans_def nans_def filter_empty_conv intro: filter_cong)
    then show ?thesis by simp
  next
    case False
    then have "filter (\<lambda>p. fst p = d) nans = []" "filter (\<lambda>p. fst p = d) non_nans = filter (\<lambda>p. fst p = d) keyed"
      by (auto simp: non_nans_def nans_def filter_empty_conv intro: filter_cong)
    then show ?thesis by simp
  qed
  finally show ?thesis by (simp add: rows)
qed

subsection \<open>Removing the days that are fetched again\<close>


lemma columns_drop_duplicate_dates [simp]:
  "columns (drop_duplicate_dates df existing_df) = columns existing_df"
  by (simp add: drop_duplicate_dates_def Let_def)


lemma drop_duplicate_dates_empty [simp]:
  "df_empty existing_df \<Longrightarrow> drop_duplicate_dates df existing_df = existing_df"
  by (simp add: drop_duplicate_dates_def)

lemma columns_sort_values_desc:
  "sort_values_desc L c df = Inr out \<Longrightarrow> columns out = columns df"
  by (rule sort_values_desc_Inr(3))

lemma reconcile_Inr:
  assumes "reconcile L df existing_df = Inr final_df"
  defines "merged \<equiv> combine df (drop_duplicate_dates df existing_df)"
  shows "columns final_df = columns merged"
    and "''date'' \<notin> set (columns merged) \<Longrightarrow> final_df = merged"
    and "''date'' \<in> set (columns merged) \<Longrightarrow> sort_values_desc L ''date'' merged = Inr final_df"
  using assms
  by (auto simp: reconcile_def Let_def columns_sort_values_desc split: if_splits)

lemma reconcile_sorted:
  assumes ok: "reconcile L df existing_df = Inr final_df" and srt: "sorts (argsort L)"
  shows "mset (rows final_df) = mset (rows (combine df (drop_duplicate_dates df existing_df)))"
    and "''date'' \<in> set (columns final_df) \<Longrightarrow> non_increasing (column ''date'' final_df)"
proof -
  let ?merged = "combine df (drop_duplicate_dates df existing_df)"
  note r = reconcile_Inr[OF ok]
  show "mset (rows final_df) = mset (rows ?merged)"
  proof (cases "''date'' \<in> set (columns ?merged)")
    case True
    from sort_values_desc_sorted(1)[OF r(3)[OF True] srt] show ?thesis .
  next
    case False
    from r(2)[OF False] show ?thesis by simp
  qed
  assume "''date'' \<in> set (columns final_df)"
  then have "''date'' \<in> set (columns ?merged)" by (simp add: r(1))
  from sort_values_desc_sorted(2)[OF r(3)[OF this] srt]
  show "non_increasing (column ''date'' final_df)" .
qed

lemma reconcile_stable:
  assumes ok: "reconcile L df existing_df = Inr final_df" and st: "keeps_ties (argsort L)"
  shows "rows_of_date d final_df = rows_of_date d (combine df (drop_duplicate_dates df existing_df))"
proof -
  let ?merged = "combine df (drop_duplicate_dates df existing_df)"
  note r = reconcile_Inr[OF ok]
  show ?thesis
  proof (cases "''date'' \<in> set (columns ?merged)")
    case True
    from sort_values_desc_stable[OF r(3)[OF True] st] show ?thesis
      by (simp add: rows_of_date_def)
  next
    case False
    from r(2)[OF False] show ?thesis by simp
  qed
qed

subsection \<open>Evaluating the sample frames\<close>

lemma day_row_apply [simp]:
  "day_row day country sessions ''date'' = Str day"
  "day_row day country sessions ''country'' = Str country"
  "day_row day country sessions ''sessions'' = Num sessions"
  by (simp_all add: day_row_def)

lemma sample_new_not_empty: "\<not> df_empty sample_new"
  by (simp add: df_empty_def sample_new_def)


lemma reconcile_sample_new_alone:
  "reconcile sample_pandas sample_new DataFrame_empty
     = Inr \<lparr>columns = [''date'', ''country'', ''sessions''],
            rows = [day_row ''2024-03-15'' ''US'' 4, day_row ''2024-03-15'' ''DE'' 2,
                    day_row ''2024-03-14'' ''US'' 5]\<rparr>"
  by (simp add: reconcile_def combine_def drop_duplicate_dates_def df_empty_def DataFrame_empty_def
      sample_new_def sort_values_desc_def Let_def comparable_def is_Str_def sample_pandas_def
      stable_kernel_def sort_rank_def)

lemma reconcile_sample:
  "reconcile sample_pandas sample_new sample_sheet
     = Inr \<lparr>columns = [''date'', ''country'', ''sessions''],
            rows = [day_row ''2024-03-15'' ''US'' 4, day_row ''2024-03-15'' ''DE'' 2,
                    day_row ''2024-03-14'' ''US'' 5, day_row ''2024-03-13'' ''US'' 7]\<rparr>"
  by (simp add: reconcile_def combine_def pd_concat_def drop_duplicate_dates_def df_empty_def
      sample_sheet_def column_def
      sample_new_def sort_values_desc_def Let_def comparable_def is_Str_def sample_pandas_def
      stable_kernel_def sort_rank_def)

section \<open>Lemmas on the sheet\<close>

lemma content_logged [simp]: "content ws (logged evs w) = content ws w"
  by (simp add: content_def logged_def split: option.splits)

lemma content_set_content [simp]: "content ws (set_content ws f w) = f"
  by (simp add: content_def set_content_def split: option.splits)

lemma sheets_logged [simp]:
  "sheet1 (logged evs w) = sheet1 w" "tabs (logged evs w) = tabs w"
  "journal (logged evs w) = journal w @ evs"
  by (simp_all add: logged_def)

lemma journal_set_content [simp]: "journal (set_content ws f w) = journal w"
  by (simp add: set_content_def split: option.splits)

lemma format_sheet_header_sheets [simp]:
  "sheet1 (format_sheet_header env w) = sheet1 w"
  "tabs (format_sheet_header env w) = tabs w"
  "content ws (format_sheet_header env w) = content ws w"
  by (simp_all add: format_sheet_header_def split: option.splits)

lemma format_sheet_header_journal:
  "journal (format_sheet_header env w) =
     journal w @ (case format_err env of
                    Some e \<Rightarrow> [LogWarning ''Header formatting failed'']
                  | None \<Rightarrow> (case resize_err env of
                               Some e \<Rightarrow> [FormatHeader, LogWarning ''Header formatting failed'']
                             | None \<Rightarrow> [FormatHeader, AutoResize]))"
  by (simp add: format_sheet_header_def split: option.splits)

lemma get_existing_sheet_data_world:
  "sheet1 (snd (get_existing_sheet_data env ws w)) = sheet1 w"
  "tabs (snd (get_existing_sheet_data env ws w)) = tabs w"
  by (simp_all add: get_existing_sheet_data_def Let_def split: option.splits)

text \<open>The steps of a run of the \<^verbatim>\<open>try\<close> block that reached its end.\<close>

lemma update_body_Inr:
  assumes "update_body L env df worksheet_name w = (Inr u, w')"
  obtains ws w1 existing_df w2 final_df where
    "open_err env = None"
    "select_worksheet env worksheet_name w = (Inr ws, w1)"
    "get_existing_sheet_data env ws w1 = (existing_df, w2)"
    "reconcile L df existing_df = Inr final_df"
    "clear_err env = None" "write_err env = None"
    "w' = format_sheet_header env
            (logged [Write final_df]
               (set_content ws final_df (logged [Clear] (set_content ws DataFrame_empty w2))))"
  using assms
  by (auto simp: update_body_def Let_def split: option.splits sum.splits prod.splits)

lemma update_google_sheet_body:
  "\<not> df_empty df \<Longrightarrow> update_google_sheet L env df worksheet_name w = (Inr u, w')
     \<longleftrightarrow> update_body L env df worksheet_name w = (Inr u, w')"
  by (auto simp: update_google_sheet_def split: prod.splits sum.splits)

lemma update_written:
  assumes "update_google_sheet L env df worksheet_name w = (Inr u, w')" and "\<not> df_empty df"
    and "select_worksheet env worksheet_name w = (Inr ws, w1)"
  shows "reconcile L df (fst (get_existing_sheet_data env ws w1)) = Inr (content ws w')"
proof -
  from assms(1,2) have "update_body L env df worksheet_name w = (Inr u, w')"
    by (simp add: update_google_sheet_body)
  then obtain ws' w1' existing_df w2 final_df where
    s: "select_worksheet env worksheet_name w = (Inr ws', w1')" and
    g: "get_existing_sheet_data env ws' w1' = (existing_df, w2)" and
    r: "reconcile L df existing_df = Inr final_df" and
    w': "w' = format_sheet_header env
            (logged [Write final_df]
               (set_content ws' final_df (logged [Clear] (set_content ws' DataFrame_empty w2))))"
    by (rule update_body_Inr)
  from s assms(3) have "ws' = ws" "w1' = w1" by simp_all
  with g r w' show ?thesis by simp
qed

lemma get_existing_empty:
  "df_empty (fst (get_existing_sheet_data env ws w))
   \<Longrightarrow> fst (get_existing_sheet_data env ws w) = DataFrame_empty"
  by (simp add: get_existing_sheet_data_def Let_def split: option.splits if_splits)

lemma df_empty_DataFrame_empty [simp]: "df_empty DataFrame_empty"
  by (simp add: df_empty_def DataFrame_empty_def)

lemma combine_empty [simp]: "combine df DataFrame_empty = df"
  by (simp add: combine_def)

lemma reconcile_alone:
  assumes "reconcile L df DataFrame_empty = Inr final_df" and "sorts (argsort L)"
  shows "columns final_df = columns df" and "mset (rows final_df) = mset (rows df)"
    and "''date'' \<in> set (columns df) \<Longrightarrow> non_increasing (column ''date'' final_df)"
    and "''date'' \<notin> set (columns df) \<Longrightarrow> final_df = df"
  using reconcile_Inr[OF assms(1)] reconcile_sorted[OF assms] by simp_all

subsection \<open>Evaluating the sample runs\<close>

lemma sample_pandas_sorts: "sorts (argsort sample_pandas)"
  by (simp add: sample_pandas_def stable_kernel_sorts)

lemma reconcile_sample_sorted:
  "reconcile sample_pandas sample_new DataFrame_empty = Inr sample_sorted"
  by (simp add: reconcile_sample_new_alone sample_sorted_def)

lemma sample_env_fields [simp]:
  "setup_err sample_env = None" "report sample_env = Inr sample_response"
  "open_err sample_env = None" "worksheet_err sample_env = None" "add_err sample_env = None"
  "read_err sample_env = None" "clear_err sample_env = None" "write_err sample_env = None"
  "format_err sample_env = None" "resize_err sample_env = None"
  by (simp_all add: sample_env_def)

lemma get_existing_blank:
  "get_existing_sheet_data sample_env None blank_world = (DataFrame_empty, blank_world)"
  by (simp add: get_existing_sheet_data_def content_def blank_world_def Let_def
      dropna_columns_def dropna_rows_def DataFrame_empty_def df_empty_def)

lemma update_sample_blank:
  "update_google_sheet sample_pandas sample_env sample_new None blank_world
     = (Inr (), \<lparr>sheet1 = sample_sorted, tabs = Map.empty,
                  journal = [Clear, Write sample_sorted, FormatHeader, AutoResize]\<rparr>)"
  by (simp add: update_google_sheet_def sample_new_not_empty update_body_def
      select_worksheet_def get_existing_blank reconcile_sample_sorted format_sheet_header_def
      logged_def set_content_def Let_def)
     (simp add: blank_world_def)

lemma values_sample_sorted:
  "values_of sample_sorted
     = [[Str ''2024-03-15'', Str ''US'', Num 4], [Str ''2024-03-15'', Str ''DE'', Num 2],
        [Str ''2024-03-14'', Str ''US'', Num 5]]"
  by (simp add: values_of_def sample_sorted_def)

lemma values_sample_new:
  "values_of sample_new
     = [[Str ''2024-03-14'', Str ''US'', Num 5], [Str ''2024-03-15'', Str ''US'', Num 4],
        [Str ''2024-03-15'', Str ''DE'', Num 2]]"
  by (simp add: values_of_def sample_new_def)

lemma update_sample_failed_read:
  "update_google_sheet sample_pandas (sample_env\<lparr>read_err := Some (External ''read timed out'')\<rparr>)
     sample_new None sample_world
     = (Inr (), \<lparr>sheet1 = sample_sorted, tabs = Map.empty,
                  journal = [LogWarning ''Could not read existing data'', Clear,
                             Write sample_sorted, FormatHeader, AutoResize]\<rparr>)"
  by (simp add: update_google_sheet_def sample_new_not_empty update_body_def
      select_worksheet_def get_existing_sheet_data_def reconcile_sample_sorted
      format_sheet_header_def logged_def set_content_def Let_def)
     (simp add: sample_world_def)

lemma update_sample_format_fails:
  "update_google_sheet sample_pandas (sample_env\<lparr>format_err := Some (External ''quota exceeded'')\<rparr>)
     sample_new None blank_world
     = (Inr (), \<lparr>sheet1 = sample_sorted, tabs = Map.empty,
                  journal = [Clear, Write sample_sorted,
                             LogWarning ''Header formatting failed'']\<rparr>)"
proof -
  have g: "get_existing_sheet_data (sample_env\<lparr>format_err := Some (External ''quota exceeded'')\<rparr>)
             None blank_world = (DataFrame_empty, blank_world)"
    using get_existing_blank by (simp add: get_existing_sheet_data_def)
  show ?thesis
    by (simp add: update_google_sheet_def sample_new_not_empty update_body_def
        select_worksheet_def g reconcile_sample_sorted format_sheet_header_def
        logged_def set_content_def Let_def)
       (simp add: blank_world_def)
qed

subsection \<open>Failures of the services\<close>

lemma select_worksheet_cosmetic [simp]:
  "select_worksheet (env\<lparr>format_err := fe, resize_err := re\<rparr>) worksheet_name w
   = select_worksheet env worksheet_name w"
  by (simp add: select_worksheet_def split: option.splits)

lemma get_existing_cosmetic [simp]:
  "get_existing_sheet_data (env\<lparr>format_err := fe, resize_err := re\<rparr>) ws w
   = get_existing_sheet_data env ws w"
  by (simp add: get_existing_sheet_data_def)

lemma update_body_cosmetic:
  "fst (update_body L (env\<lparr>format_err := fe, resize_err := re\<rparr>) df worksheet_name w)
     = fst (update_body L env df worksheet_name w)"
  "sheet1 (snd (update_body L (env\<lparr>format_err := fe, resize_err := re\<rparr>) df worksheet_name w))
     = sheet1 (snd (update_body L env df worksheet_name w))"
  "tabs (snd (update_body L (env\<lparr>format_err := fe, resize_err := re\<rparr>) df worksheet_name w))
     = tabs (snd (update_body L env df worksheet_name w))"
  by (simp_all add: update_body_def Let_def split: option.splits sum.splits prod.splits)

lemma update_google_sheet_fst:
  "fst (update_google_sheet L env df worksheet_name w)
     = (if df_empty df then Inr () else fst (update_body L env df worksheet_name w))"
  by (simp add: update_google_sheet_def split: prod.splits sum.splits)

lemma update_google_sheet_sheets:
  "sheet1 (snd (update_google_sheet L env df worksheet_name w))
     = (if df_empty df then sheet1 w else sheet1 (snd (update_body L env df worksheet_name w)))"
  "tabs (snd (update_google_sheet L env df worksheet_name w))
     = (if df_empty df then tabs w else tabs (snd (update_body L env df worksheet_name w)))"
  by (simp_all add: update_google_sheet_def split: prod.splits sum.splits)

lemma update_body_hard_failure:
  "open_err env = Some e \<Longrightarrow> fst (update_body L env df worksheet_name w) = Inl e"
  "clear_err env \<noteq> None \<or> write_err env \<noteq> None \<Longrightarrow> isl (fst (update_body L env df worksheet_name w))"
  by (auto simp: update_body_def Let_def split: option.splits sum.splits prod.splits)

lemma update_body_worksheet_failure:
  assumes "worksheet_name = Some title" and "title \<noteq> []"
    and "worksheet_err env \<noteq> None \<or> (tabs w title = None \<and> add_err env \<noteq> None)"
  shows "isl (fst (update_body L env df worksheet_name w))"
proof -
  from assms have "isl (fst (select_worksheet env worksheet_name w))"
    by (cases "worksheet_err env") (auto simp: select_worksheet_def)
  then obtain e w1 where "select_worksheet env worksheet_name w = (Inl e, w1)"
    by (cases "select_worksheet env worksheet_name w") (auto simp: isl_def)
  then show ?thesis
    by (simp add: update_body_def split: option.splits)
qed

lemma update_success_journal:
  assumes "update_google_sheet L env df worksheet_name w = (Inr u, w')" and "\<not> df_empty df"
    and "select_worksheet env worksheet_name w = (Inr ws, w1)"
  shows "Write (content ws w') \<in> set (journal w')"
    and "format_err env \<noteq> None \<or> resize_err env \<noteq> None
         \<Longrightarrow> last (journal w') = LogWarning ''Header formatting failed''"
proof -
  from assms(1,2) have "update_body L env df worksheet_name w = (Inr u, w')"
    by (simp add: update_google_sheet_body)
  then obtain ws' w1' existing_df w2 final_df where
    s: "select_worksheet env worksheet_name w = (Inr ws', w1')" and
    w': "w' = format_sheet_header env
            (logged [Write final_df]
               (set_content ws' final_df (logged [Clear] (set_content ws' DataFrame_empty w2))))"
    by (rule update_body_Inr)
  from s assms(3) have ws: "ws' = ws" by simp
  show "Write (content ws w') \<in> set (journal w')"
    by (simp add: w' ws format_sheet_header_journal)
  show "last (journal w') = LogWarning ''Header formatting failed''"
    if "format_err env \<noteq> None \<or> resize_err env \<noteq> None"
    using that by (auto simp: w' format_sheet_header_journal split: option.splits)
qed

lemma sync_data_propagates:
  assumes "setup_err env = None"
    and "fetch_ga4_data L now env dimensions metrics w0 = (Inr df, w)"
    and "\<not> df_empty df"
    and "fst (update_google_sheet L env df worksheet_name w) = Inl e"
  shows "fst (sync_data L now env dimensions metrics worksheet_name w0) = Inl e"
  using assms
  by (cases "update_google_sheet L env df worksheet_name w")
     (simp add: sync_data_def Let_def)

section \<open>Lemmas on the default kernel\<close>

text \<open>One step of the sort of a range, for a fuel written as a numeral.\<close>

lemma introsort_unfold:
  "0 < fuel \<Longrightarrow>
   introsort fuel popped cdepth a pl pr =
     (if popped \<and> cdepth < 0 then npy_aheapsort a pl pr
      else if 16 < pr - pl
      then (case partition_range a pl pr of
              (a', i) \<Rightarrow>
                if i - pl < pr - i
                then introsort (fuel - 1) True (cdepth - 1)
                       (introsort (fuel - 1) False (cdepth - 1) a' pl (i - 1)) (i + 1) pr
                else introsort (fuel - 1) True (cdepth - 1)
                       (introsort (fuel - 1) False (cdepth - 1) a' (i + 1) pr) pl (i - 1))
      else insertion_sort_range a pl pr)"
  by (cases fuel) (simp_all split: prod.split)

lemma key_less_same [simp]: "key_less (k, r) (k, r') = False"
  by (simp add: key_less_def)

lemma npy_get_msb_20: "npy_get_msb 20 = 4"
  by (simp add: npy_get_msb.simps[of 20] npy_get_msb.simps[of 10] npy_get_msb.simps[of 5]
      npy_get_msb.simps[of 2] npy_get_msb.simps[of "Suc 0"])

text \<open>
  Twenty pairs of one key. No key is less than another, so the median step moves
  nothing and the pivot is the pair in the middle, put next to the right end. Both
  scans of the partition stop at once at a pair that is not less, or not greater, than
  the pivot, so every round swaps the two pairs the scans stand on, until the scans
  meet in the middle: the pairs between the first and the last two come out reversed.
  The two parts are shorter than eighteen, and the insertion sort moves no pair past an
  equal one.
\<close>

lemma npy_aquicksort_twenty_of_one_key:
  "npy_aquicksort
     [(k, r19), (k, r18), (k, r17), (k, r16), (k, r15), (k, r14), (k, r13), (k, r12), (k, r11),
      (k, r10), (k, r9), (k, r8), (k, r7), (k, r6), (k, r5), (k, r4), (k, r3), (k, r2), (k, r1),
      (k, r0)]
   = [(k, r19), (k, r2), (k, r3), (k, r4), (k, r5), (k, r6), (k, r7), (k, r8), (k, r9), (k, r10),
      (k, r11), (k, r12), (k, r13), (k, r14), (k, r15), (k, r16), (k, r17), (k, r18), (k, r1),
      (k, r0)]"
proof -
  let ?xs = "[(k, r19), (k, r18), (k, r17), (k, r16), (k, r15), (k, r14), (k, r13), (k, r12),
      (k, r11), (k, r10), (k, r9), (k, r8), (k, r7), (k, r6), (k, r5), (k, r4), (k, r3), (k, r2),
      (k, r1), (k, r0)]"
  let ?ys = "[(k, r19), (k, r2), (k, r3), (k, r4), (k, r5), (k, r6), (k, r7), (k, r8), (k, r9),
      (k, r10), (k, r11), (k, r12), (k, r13), (k, r14), (k, r15), (k, r16), (k, r17), (k, r18),
      (k, r1), (k, r0)]"
  have part: "partition_range ?xs 0 19 = (?ys, 9)"
    by (simp add: partition_range_def swap_at_def scan_up_def scan_down_def Let_def)
  have left: "insertion_sort_range ?ys 0 8 = ?ys"
    by (simp add: insertion_sort_range_def insert_back_def Let_def)
  have right: "insertion_sort_range ?ys 10 19 = ?ys"
    by (simp add: insertion_sort_range_def insert_back_def Let_def)
  have l: "introsort 19 False 7 ?ys 0 8 = ?ys"
    by (subst introsort_unfold) (simp_all add: left)
  have r: "introsort 19 True 7 ?ys 10 19 = ?ys"
    by (subst introsort_unfold) (simp_all add: right)
  have "introsort 20 True 8 ?xs 0 19 = ?ys"
    by (subst introsort_unfold) (simp_all add: part l r)
  moreover have "length ?xs = 20" by simp
  ultimately show ?thesis
    by (simp add: npy_aquicksort_def npy_get_msb_20 del: list.size length_Cons)
qed

text \<open>The written frames: the twenty rows of one day come out in another order
  than they went in; the three rows of \<open>sample_new\<close>, fewer than eighteen, are sorted
  by insertion, and the two of the fifteenth keep their order.\<close>

lemma reconcile_busy_day:
  "reconcile numpy_pandas busy_day DataFrame_empty = Inr busy_day_written"
  by (simp add: reconcile_def busy_day_def busy_day_written_def sort_values_desc_def Let_def
      comparable_def is_Str_def numpy_pandas_def sample_pandas_def
      npy_aquicksort_twenty_of_one_key)

lemma reconcile_sample_new_numpy:
  "reconcile numpy_pandas sample_new DataFrame_empty = Inr sample_sorted"
  by (simp add: reconcile_def sample_new_def sample_sorted_def sort_values_desc_def Let_def
      comparable_def is_Str_def numpy_pandas_def sample_pandas_def
      npy_aquicksort_def npy_get_msb.simps[of 3] npy_get_msb.simps[of "Suc 0"]
      introsort_unfold insertion_sort_range_def insert_back_def key_less_def sort_rank_def)

section \<open>Claims on the formatting of a fetched frame\<close>

subsection \<open>C3: the count metrics\<close>

text \<open>
  C3, as the code has it. In a frame that \<open>format_dataframe\<close> returns, the column of a
  declared metric other than bounceRate and averageSessionDuration holds, cell by cell,
  the number read from the source value with a missing value replaced by 0: every cell
  is a whole number, and it is 0 where the source value is missing or is a text that is
  not a number. Nothing makes the number non-negative: a negative count is kept.
\<close>

theorem count_metric_column:
  assumes "format_dataframe L now df dimensions metrics = Inr out"
    and "\<not> df_empty df"
    and "metric \<in> set metrics"
    and "metric \<notin> set [''bounceRate'', ''averageSessionDuration'']"
    and "metric \<noteq> ''date''"
  shows "list_all2
           (\<lambda>src c. c = fillna0 (to_numeric L src) \<and> whole_number c
                     \<and> (src = NaN \<longrightarrow> c = Num 0)
                     \<and> (\<forall>s. src = Str s \<and> to_number L s = None \<longrightarrow> c = Num 0))
           (column metric df) (column metric out)"
proof -
  have col: "column metric out = map (\<lambda>c. fillna0 (to_numeric L c)) (column metric df)"
    using format_dataframe_metric_column[OF assms(1-3)] assms(4,5)
    by (simp add: conv_count column_format_date_other)
  have "list_all int64_ok (column metric out)"
    by (rule format_dataframe_count_ok[OF assms(1-4)])
  then have "\<forall>src \<in> set (column metric df). int64_ok (fillna0 (to_numeric L src))"
    by (simp add: col list_all_iff)
  then show ?thesis
    unfolding col list_all2_map2
    by (intro list_all2_same[THEN iffD2] ballI) (auto dest: count_cell)
qed

text \<open>Witness of C3: on the sample the sessions column becomes 12, -5 and 0.\<close>

theorem count_metric_column_witness:
  "\<not> df_empty sample_raw \<and> ''sessions'' \<in> set sample_metrics
   \<and> ''sessions'' \<notin> set [''bounceRate'', ''averageSessionDuration'']
   \<and> map_sum id (column ''sessions'')
        (format_dataframe sample_pandas ''2024-03-16 06:00:00'' sample_raw sample_dimensions
           sample_metrics)
      = Inr [Num 12, Num (- 5), Num 0]"
proof -
  obtain out where ok:
    "format_dataframe sample_pandas ''2024-03-16 06:00:00'' sample_raw sample_dimensions
       sample_metrics = Inr out"
    using sample_formats by blast
  have m: "''sessions'' \<in> set sample_metrics" by (simp add: sample_metrics_def)
  have "list_all2 (\<lambda>src c. c = fillna0 (to_numeric sample_pandas src))
          (column ''sessions'' sample_raw) (column ''sessions'' out)"
    using count_metric_column[OF ok sample_not_empty m]
    by (simp add: list_all2_conv_all_nth)
  then have "column ''sessions'' out = [Num 12, Num (- 5), Num 0]"
    by (simp add: sample_sessions list_all2_Cons1 sample_numeric fillna0_def)
  with ok m sample_not_empty show ?thesis by simp
qed

text \<open>Counterexample to C3 as stated ("only non-negative integers"): the sample
  formats without an error and its sessions column is not made of non-negative whole
  numbers, because the source value \<^verbatim>\<open>-5\<close> is kept.\<close>

theorem count_metric_negative:
  "\<not> (case format_dataframe sample_pandas ''2024-03-16 06:00:00'' sample_raw sample_dimensions
             sample_metrics of
         Inl e \<Rightarrow> True
       | Inr out \<Rightarrow> list_all (\<lambda>c. whole_number c \<and> non_negative c) (column ''sessions'' out))"
proof -
  obtain out where ok:
    "format_dataframe sample_pandas ''2024-03-16 06:00:00'' sample_raw sample_dimensions
       sample_metrics = Inr out"
    using sample_formats by blast
  have m: "''sessions'' \<in> set sample_metrics" by (simp add: sample_metrics_def)
  have "column ''sessions'' out = map (conv sample_pandas ''sessions'') (column ''sessions'' sample_raw)"
    using format_dataframe_metric_column[OF ok sample_not_empty m]
    by (simp add: column_format_date_other)
  then have "column ''sessions'' out = [Num 12, Num (- 5), Num 0]"
    by (simp add: sample_sessions conv_def sample_numeric fillna0_def)
  with ok show ?thesis by (simp add: non_negative_def)
qed

subsection \<open>C4: the ratio and duration metrics\<close>

text \<open>
  C4, as the code has it. In a frame that \<open>format_dataframe\<close> returns, the column of
  bounceRate or averageSessionDuration holds, cell by cell, the number read from the
  source value, rounded to four decimals: every cell is a number with at most four
  decimals, an infinity or NaN, and it is NaN where the source value is missing or is a
  text that is not a number.
\<close>

theorem ratio_metric_column:
  assumes "format_dataframe L now df dimensions metrics = Inr out"
    and "\<not> df_empty df"
    and "metric \<in> set metrics"
    and "metric \<in> set [''bounceRate'', ''averageSessionDuration'']"
  shows "list_all2
           (\<lambda>src c. c = round4 (to_numeric L src)
                     \<and> (c = NaN \<or> c = PInf \<or> c = NInf \<or> four_decimals c)
                     \<and> (src = NaN \<longrightarrow> c = NaN)
                     \<and> (\<forall>s. src = Str s \<and> to_number L s = None \<longrightarrow> c = NaN))
           (column metric df) (column metric out)"
proof -
  from assms(4) have "metric \<noteq> ''date''" by auto
  then have col: "column metric out = map (\<lambda>c. round4 (to_numeric L c)) (column metric df)"
    using format_dataframe_metric_column[OF assms(1-3)] assms(4)
    by (simp add: conv_ratio column_format_date_other)
  show ?thesis
    unfolding col list_all2_map2
    by (intro list_all2_same[THEN iffD2] ballI) (use ratio_cell in auto)
qed

text \<open>Witness of C4: on the sample the bounceRate column becomes 0.1235, NaN and
  0.5.\<close>

theorem ratio_metric_column_witness:
  "\<not> df_empty sample_raw \<and> ''bounceRate'' \<in> set sample_metrics
   \<and> ''bounceRate'' \<in> set [''bounceRate'', ''averageSessionDuration'']
   \<and> map_sum id (column ''bounceRate'')
        (format_dataframe sample_pandas ''2024-03-16 06:00:00'' sample_raw sample_dimensions
           sample_metrics)
      = Inr [Num (1235 / 10000), NaN, Num (5 / 10)]"
proof -
  obtain out where ok:
    "format_dataframe sample_pandas ''2024-03-16 06:00:00'' sample_raw sample_dimensions
       sample_metrics = Inr out"
    using sample_formats by blast
  have m: "''bounceRate'' \<in> set sample_metrics" by (simp add: sample_metrics_def)
  have "list_all2 (\<lambda>src c. c = round4 (to_numeric sample_pandas src))
          (column ''bounceRate'' sample_raw) (column ''bounceRate'' out)"
    using ratio_metric_column[OF ok sample_not_empty m]
    by (simp add: list_all2_conv_all_nth)
  then have "column ''bounceRate'' out = [Num (1235 / 10000), NaN, Num (5 / 10)]"
    by (simp add: sample_bounce list_all2_Cons1 sample_numeric sample_round)
  with ok m sample_not_empty show ?thesis by simp
qed

text \<open>Counterexample to C4 as stated ("only finite floating-point values"): the sample
  formats without an error and its bounceRate column holds a NaN, for the source value
  \<^verbatim>\<open>n/a\<close>.\<close>

theorem ratio_metric_not_finite:
  "\<not> (case format_dataframe sample_pandas ''2024-03-16 06:00:00'' sample_raw sample_dimensions
             sample_metrics of
         Inl e \<Rightarrow> True
       | Inr out \<Rightarrow> list_all finite_number (column ''bounceRate'' out))"
proof -
  obtain out where ok:
    "format_dataframe sample_pandas ''2024-03-16 06:00:00'' sample_raw sample_dimensions
       sample_metrics = Inr out"
    using sample_formats by blast
  have m: "''bounceRate'' \<in> set sample_metrics" by (simp add: sample_metrics_def)
  have "column ''bounceRate'' out
          = map (conv sample_pandas ''bounceRate'') (column ''bounceRate'' sample_raw)"
    using format_dataframe_metric_column[OF ok sample_not_empty m]
    by (simp add: column_format_date_other)
  then have "column ''bounceRate'' out = [Num (1235 / 10000), NaN, Num (5 / 10)]"
    by (simp add: sample_bounce conv_def sample_numeric sample_round)
  with ok show ?thesis by (simp add: finite_number_def)
qed

subsection \<open>C5: the date column\<close>

text \<open>
  C5. In a frame that \<open>format_dataframe\<close> returns, the date column holds, cell by cell,
  the formatted result of reading the source value as a date: a text in the compact
  form YYYYMMDD that names a day of the calendar becomes the same digits with hyphens,
  YYYY-MM-DD, and a value that does not read as a date becomes the missing-value
  marker. The date values cannot make the batch fail: with any other content in the
  date column the same call still returns a frame.
\<close>

theorem date_column_reformatted:
  assumes "format_dataframe L now df dimensions metrics = Inr out"
    and "\<not> df_empty df"
    and "''date'' \<in> set (columns df)"
    and "''date'' \<notin> set metrics"
  shows "list_all2
           (\<lambda>src c. c = strftime (to_datetime L src)
                     \<and> (\<forall>s. src = Str s \<and> compact_form s \<and> valid_date (compact_date s)
                             \<longrightarrow> c = Str (hyphenated s))
                     \<and> (to_datetime L src = None \<longrightarrow> c = NaN))
           (column ''date'' df) (column ''date'' out)
         \<and> (\<forall>f. \<not> isl (format_dataframe L now (set_column ''date'' f df) dimensions metrics))"
proof
  have col: "column ''date'' out = map (\<lambda>c. strftime (to_datetime L c)) (column ''date'' df)"
    by (rule format_dataframe_date_column[OF assms])
  show "list_all2
           (\<lambda>src c. c = strftime (to_datetime L src)
                     \<and> (\<forall>s. src = Str s \<and> compact_form s \<and> valid_date (compact_date s)
                             \<longrightarrow> c = Str (hyphenated s))
                     \<and> (to_datetime L src = None \<longrightarrow> c = NaN))
           (column ''date'' df) (column ''date'' out)"
    unfolding col list_all2_map2
    by (intro list_all2_same[THEN iffD2] ballI conjI refl)
       (use date_cell_all in blast)+
  show "\<forall>f. \<not> isl (format_dataframe L now (set_column ''date'' f df) dimensions metrics)"
    using date_cells_never_fail[OF assms(4), of L now _ df dimensions] assms(1) by simp
qed

text \<open>Witness of C5: \<^verbatim>\<open>20240315\<close> becomes \<^verbatim>\<open>2024-03-15\<close>, and the thirtieth of February
  becomes the missing-value marker while the batch is formatted.\<close>

theorem date_column_reformatted_witness:
  "\<not> df_empty sample_raw \<and> ''date'' \<in> set (columns sample_raw) \<and> ''date'' \<notin> set sample_metrics
   \<and> map_sum id (column ''date'')
        (format_dataframe sample_pandas ''2024-03-16 06:00:00'' sample_raw sample_dimensions
           sample_metrics)
      = Inr [Str ''2024-03-15'', NaN, Str ''2024-03-14'']"
proof -
  obtain out where ok:
    "format_dataframe sample_pandas ''2024-03-16 06:00:00'' sample_raw sample_dimensions
       sample_metrics = Inr out"
    using sample_formats by blast
  have d: "''date'' \<in> set (columns sample_raw)" by (simp add: sample_columns)
  have m: "''date'' \<notin> set sample_metrics" by (simp add: sample_metrics_def)
  have "list_all2 (\<lambda>src c. c = strftime (to_datetime sample_pandas src))
          (column ''date'' sample_raw) (column ''date'' out)"
    using date_column_reformatted[OF ok sample_not_empty d m]
    by (simp add: list_all2_conv_all_nth)
  then have "column ''date'' out = [Str ''2024-03-15'', NaN, Str ''2024-03-14'']"
    by (simp add: sample_date list_all2_Cons1 sample_dates)
  with ok d m sample_not_empty show ?thesis by simp
qed

subsection \<open>C10: the empty frame\<close>

text \<open>
  C10. On an empty frame \<open>format_dataframe\<close> is the identity: nothing is reformatted or
  coerced and no metadata column is added. And a frame that \<open>fetch_ga4_data\<close> returns
  empty has no columns at all.
\<close>

theorem empty_frame_unformatted:
  "(df_empty df \<longrightarrow> format_dataframe L now df dimensions metrics = Inr df)
   \<and> (fetch_ga4_data L now env dimensions' metrics' w = (Inr out, w') \<and> df_empty out
        \<longrightarrow> columns out = [])"
proof (intro conjI impI)
  assume "df_empty df"
  then show "format_dataframe L now df dimensions metrics = Inr df"
    by (simp add: format_dataframe_def)
next
  assume a: "fetch_ga4_data L now env dimensions' metrics' w = (Inr out, w') \<and> df_empty out"
  define dims where "dims = (case dimensions' of None \<Rightarrow> default_dimensions | Some ds \<Rightarrow> ds)"
  define mets where "mets = (case metrics' of None \<Rightarrow> default_metrics | Some ms \<Rightarrow> ms)"
  from a obtain response_rows where r: "report env = Inr response_rows"
    by (cases "report env") (auto simp: fetch_ga4_data_def Let_def)
  show "columns out = []"
  proof (cases "response_rows = []")
    case True
    with a r show ?thesis by (auto simp: fetch_ga4_data_def Let_def DataFrame_empty_def)
  next
    case False
    with a r obtain df where
      d: "DataFrame (map (\<lambda>(dvs, mvs). dvs @ mvs) response_rows) (dims @ mets) = Inr df" and
      f: "format_dataframe L now df dims mets = Inr out"
      by (auto simp: fetch_ga4_data_def Let_def dims_def mets_def split: sum.splits)
    from DataFrame_Inr[OF d] False have rows: "rows df \<noteq> []" by auto
    show ?thesis
    proof (cases "df_empty df")
      case True
      with f have "out = df" by (simp add: format_dataframe_def)
      with True rows show ?thesis by (simp add: df_empty_def)
    next
      case False
      from format_dataframe_not_empty[OF f False] a show ?thesis by simp
    qed
  qed
qed

text \<open>Witness of C10: a frame with two columns and no rows comes back as it is, and
  a report without rows is fetched as the frame without columns.\<close>

theorem empty_frame_unformatted_witness:
  "df_empty \<lparr>columns = [''date'', ''sessions''], rows = []\<rparr>
   \<and> format_dataframe sample_pandas ''2024-03-16 06:00:00''
        \<lparr>columns = [''date'', ''sessions''], rows = []\<rparr> [''date''] [''sessions'']
      = Inr \<lparr>columns = [''date'', ''sessions''], rows = []\<rparr>
   \<and> fst (fetch_ga4_data sample_pandas ''2024-03-16 06:00:00'' (sample_env\<lparr>report := Inr []\<rparr>)
            None None sample_world) = Inr DataFrame_empty
   \<and> df_empty DataFrame_empty \<and> columns DataFrame_empty = []"
proof -
  let ?df = "\<lparr>columns = [''date'', ''sessions''], rows = []\<rparr>"
  let ?fetch = "fetch_ga4_data sample_pandas ''2024-03-16 06:00:00''
                  (sample_env\<lparr>report := Inr []\<rparr>) None None sample_world"
  have e: "df_empty ?df" by (simp add: df_empty_def)
  have f: "?fetch = (Inr DataFrame_empty, snd ?fetch)"
    by (simp add: fetch_ga4_data_def Let_def)
  have g: "df_empty DataFrame_empty" by (simp add: df_empty_def DataFrame_empty_def)
  have h: "fst ?fetch = Inr DataFrame_empty"
    by (simp add: fetch_ga4_data_def Let_def)
  from empty_frame_unformatted[of ?df sample_pandas "''2024-03-16 06:00:00''" "[''date'']"
      "[''sessions'']" "sample_env\<lparr>report := Inr []\<rparr>" None None sample_world
      DataFrame_empty "snd ?fetch"] e f g h
  show ?thesis by simp
qed

section \<open>Claims on reconciling\<close>

subsection \<open>C1: new rows supersede the old rows of their dates\<close>



subsection \<open>C2: the order of the written rows\<close>

text \<open>
  C2, as the code has it. When the reconciled frame has a date column, its rows are
  the rows of the concatenation rearranged so that the dates do not increase (missing
  dates last). The rows of one date keep their order from the concatenation when the
  sort kernel is stable; the call leaves the default \<^verbatim>\<open>kind='quicksort'\<close> in place,
  which promises a sorted rearrangement and no more.
\<close>

theorem written_rows_descending:
  assumes "reconcile L df existing_df = Inr final_df"
    and "''date'' \<in> set (columns final_df)"
    and "sorts (argsort L)"
  shows "non_increasing (column ''date'' final_df)
         \<and> mset (rows final_df) = mset (rows (combine df (drop_duplicate_dates df existing_df)))
         \<and> (keeps_ties (argsort L) \<longrightarrow>
              (\<forall>d. rows_of_date d final_df
                     = rows_of_date d (combine df (drop_duplicate_dates df existing_df))))"
  using reconcile_sorted[OF assms(1,3)] reconcile_stable[OF assms(1)] assms(2) by blast

text \<open>Witness of C2: with the stable kernel, the four rows left of the sample come
  out by descending date and the two rows of the fifteenth keep their order.\<close>

theorem written_rows_descending_witness:
  "reconcile sample_pandas sample_new sample_sheet
     = Inr \<lparr>columns = [''date'', ''country'', ''sessions''],
            rows = [day_row ''2024-03-15'' ''US'' 4, day_row ''2024-03-15'' ''DE'' 2,
                    day_row ''2024-03-14'' ''US'' 5, day_row ''2024-03-13'' ''US'' 7]\<rparr>
   \<and> sorts (argsort sample_pandas) \<and> keeps_ties (argsort sample_pandas)
   \<and> non_increasing [Str ''2024-03-15'', Str ''2024-03-15'', Str ''2024-03-14'', Str ''2024-03-13'']
   \<and> rows_of_date (Str ''2024-03-15'')
        (combine sample_new (drop_duplicate_dates sample_new sample_sheet))
      = [day_row ''2024-03-15'' ''US'' 4, day_row ''2024-03-15'' ''DE'' 2]"
proof -
  let ?final = "\<lparr>columns = [''date'', ''country'', ''sessions''],
            rows = [day_row ''2024-03-15'' ''US'' 4, day_row ''2024-03-15'' ''DE'' 2,
                    day_row ''2024-03-14'' ''US'' 5, day_row ''2024-03-13'' ''US'' 7]\<rparr>"
  have s: "sorts (argsort sample_pandas)" "keeps_ties (argsort sample_pandas)"
    by (simp_all add: sample_pandas_def stable_kernel_sorts stable_kernel_keeps_ties)
  have d: "''date'' \<in> set (columns ?final)" by simp
  have c: "column ''date'' ?final
           = [Str ''2024-03-15'', Str ''2024-03-15'', Str ''2024-03-14'', Str ''2024-03-13'']"
    by (simp add: column_def)
  have r: "rows_of_date (Str ''2024-03-15'') ?final
           = [day_row ''2024-03-15'' ''US'' 4, day_row ''2024-03-15'' ''DE'' 2]"
    by (simp add: rows_of_date_def)
  from written_rows_descending[OF reconcile_sample d s(1)] s c r reconcile_sample
  show ?thesis by simp
qed

text \<open>
  Counterexample to C2 as stated, with the kernel that the call runs. A fetch of one
  day brings twenty rows, the sheet is empty. The frame that is written has the date
  column and the same twenty rows, all of one date, but not in the order of the
  concatenation: the countries went in as AR, AT, AU, ..., MX, US and are written as
  AR, AT, MX, JP, ..., AU, US. pandas reverses the rows before the sort and after it,
  and the partition of numpy's quicksort swaps equal keys across the pivot.
\<close>

theorem ties_reordered_by_quicksort:
  "reconcile numpy_pandas busy_day DataFrame_empty = Inr busy_day_written
   \<and> ''date'' \<in> set (columns busy_day_written)
   \<and> map (\<lambda>r. r ''country'') (rows_of_date (Str ''2024-03-15'') busy_day_written)
       = map Str [''AR'', ''AT'', ''MX'', ''JP'', ''IT'', ''IN'', ''GB'', ''FR'', ''FI'', ''ES'',
                  ''DK'', ''DE'', ''CN'', ''CL'', ''CH'', ''CA'', ''BR'', ''BE'', ''AU'', ''US'']
   \<and> map (\<lambda>r. r ''country'')
         (rows_of_date (Str ''2024-03-15'')
            (combine busy_day (drop_duplicate_dates busy_day DataFrame_empty)))
       = map Str [''AR'', ''AT'', ''AU'', ''BE'', ''BR'', ''CA'', ''CH'', ''CL'', ''CN'', ''DE'',
                  ''DK'', ''ES'', ''FI'', ''FR'', ''GB'', ''IN'', ''IT'', ''JP'', ''MX'', ''US'']
   \<and> rows_of_date (Str ''2024-03-15'') busy_day_written
       \<noteq> rows_of_date (Str ''2024-03-15'')
            (combine busy_day (drop_duplicate_dates busy_day DataFrame_empty))"
proof -
  have w: "map (\<lambda>r. r ''country'') (rows_of_date (Str ''2024-03-15'') busy_day_written)
       = map Str [''AR'', ''AT'', ''MX'', ''JP'', ''IT'', ''IN'', ''GB'', ''FR'', ''FI'', ''ES'',
                  ''DK'', ''DE'', ''CN'', ''CL'', ''CH'', ''CA'', ''BR'', ''BE'', ''AU'', ''US'']"
    by (simp add: rows_of_date_def busy_day_written_def)
  have c: "map (\<lambda>r. r ''country'')
         (rows_of_date (Str ''2024-03-15'')
            (combine busy_day (drop_duplicate_dates busy_day DataFrame_empty)))
       = map Str [''AR'', ''AT'', ''AU'', ''BE'', ''BR'', ''CA'', ''CH'', ''CL'', ''CN'', ''DE'',
                  ''DK'', ''ES'', ''FI'', ''FR'', ''GB'', ''IN'', ''IT'', ''JP'', ''MX'', ''US'']"
    by (simp add: rows_of_date_def busy_day_def)
  have d: "''date'' \<in> set (columns busy_day_written)"
    by (simp add: busy_day_written_def)
  have "rows_of_date (Str ''2024-03-15'') busy_day_written
       \<noteq> rows_of_date (Str ''2024-03-15'')
            (combine busy_day (drop_duplicate_dates busy_day DataFrame_empty))"
  proof
    assume "rows_of_date (Str ''2024-03-15'') busy_day_written
       = rows_of_date (Str ''2024-03-15'')
            (combine busy_day (drop_duplicate_dates busy_day DataFrame_empty))"
    then have "map (\<lambda>r. r ''country'') (rows_of_date (Str ''2024-03-15'') busy_day_written)
       = map (\<lambda>r. r ''country'') (rows_of_date (Str ''2024-03-15'')
            (combine busy_day (drop_duplicate_dates busy_day DataFrame_empty)))"
      by (rule arg_cong)
    then show False unfolding w c by simp
  qed
  with reconcile_busy_day d w c show ?thesis by blast
qed

section \<open>Claims on the run against the sheet\<close>

subsection \<open>C8: an empty sheet\<close>

text \<open>
  C8, as the code has it. When the new frame is not empty and the frame read from the
  sheet is empty, what a successful run leaves in the sheet has the columns of the new
  frame and its rows; when the new frame has a date column the rows are put in
  descending order of the dates (lines 230 to 232 run on this path too), and when it
  has none the sheet holds the new frame as it is.
\<close>

theorem empty_sheet_gets_new_rows:
  assumes "update_google_sheet L env df worksheet_name w = (Inr (), w')"
    and "\<not> df_empty df"
    and "select_worksheet env worksheet_name w = (Inr ws, w1)"
    and "df_empty (fst (get_existing_sheet_data env ws w1))"
    and "sorts (argsort L)"
  shows "columns (content ws w') = columns df
         \<and> mset (rows (content ws w')) = mset (rows df)
         \<and> (''date'' \<in> set (columns df) \<longrightarrow> non_increasing (column ''date'' (content ws w')))
         \<and> (''date'' \<notin> set (columns df) \<longrightarrow> content ws w' = df)"
proof -
  have "reconcile L df DataFrame_empty = Inr (content ws w')"
    using update_written[OF assms(1-3)] get_existing_empty[OF assms(4)] by simp
  from reconcile_alone[OF this assms(5)] show ?thesis by blast
qed

text \<open>Witness of C8: three new rows written to a blank sheet, by descending date.\<close>

theorem empty_sheet_gets_new_rows_witness:
  "update_google_sheet sample_pandas sample_env sample_new None blank_world
     = (Inr (), \<lparr>sheet1 = sample_sorted, tabs = Map.empty,
                  journal = [Clear, Write sample_sorted, FormatHeader, AutoResize]\<rparr>)
   \<and> \<not> df_empty sample_new
   \<and> select_worksheet sample_env None blank_world = (Inr None, blank_world)
   \<and> df_empty (fst (get_existing_sheet_data sample_env None blank_world))
   \<and> sorts (argsort sample_pandas)
   \<and> columns sample_sorted = columns sample_new
   \<and> mset (rows sample_sorted) = mset (rows sample_new)
   \<and> ''date'' \<in> set (columns sample_new)
   \<and> non_increasing (column ''date'' sample_sorted)"
proof -
  let ?w' = "\<lparr>sheet1 = sample_sorted, tabs = Map.empty,
               journal = [Clear, Write sample_sorted, FormatHeader, AutoResize]\<rparr>"
  have s: "select_worksheet sample_env None blank_world = (Inr None, blank_world)"
    by (simp add: select_worksheet_def)
  have e: "df_empty (fst (get_existing_sheet_data sample_env None blank_world))"
    by (simp add: get_existing_blank)
  have c: "content None ?w' = sample_sorted" by (simp add: content_def)
  have d: "''date'' \<in> set (columns sample_new)" by (simp add: sample_new_def)
  from empty_sheet_gets_new_rows[OF update_sample_blank sample_new_not_empty s e
      sample_pandas_sorts]
    update_sample_blank sample_new_not_empty s e sample_pandas_sorts d
  show ?thesis by (simp only: c) simp
qed

text \<open>Counterexample to C8 as stated ("the reconciled result written to the sheet is
  simply the new record set"): the new frame has the fourteenth before the fifteenth,
  and the sheet receives the fifteenth first.\<close>

theorem written_frame_reordered:
  "\<not> (case update_google_sheet sample_pandas sample_env sample_new None blank_world of
         (Inl e, w') \<Rightarrow> True
       | (Inr u, w') \<Rightarrow> values_of (content None w') = values_of sample_new)"
  by (simp add: update_sample_blank content_def values_sample_sorted values_sample_new)

subsection \<open>C9: a read that fails\<close>

text \<open>
  C9. \<open>get_existing_sheet_data\<close> returns a frame whatever happens: when the read
  raises, the frame is the empty one. So a run whose read fails and which then succeeds
  leaves in the sheet the columns and the rows of the new frame only, whatever the
  sheet held before.
\<close>

theorem failed_read_keeps_new_rows_only:
  assumes "read_err env = Some e"
  shows "fst (get_existing_sheet_data env ws w1) = DataFrame_empty
         \<and> (update_google_sheet L env df worksheet_name w = (Inr (), w') \<and> \<not> df_empty df
              \<and> select_worksheet env worksheet_name w = (Inr ws, w1) \<and> sorts (argsort L)
             \<longrightarrow> columns (content ws w') = columns df
                 \<and> mset (rows (content ws w')) = mset (rows df))"
proof (intro conjI impI)
  show g: "fst (get_existing_sheet_data env ws w1) = DataFrame_empty"
    using assms by (simp add: get_existing_sheet_data_def)
  assume a: "update_google_sheet L env df worksheet_name w = (Inr (), w') \<and> \<not> df_empty df
              \<and> select_worksheet env worksheet_name w = (Inr ws, w1) \<and> sorts (argsort L)"
  then have "reconcile L df DataFrame_empty = Inr (content ws w')"
    using update_written[of L env df worksheet_name w "()" w' ws w1] g by simp
  from reconcile_alone(1,2)[OF this] a
  show "columns (content ws w') = columns df" "mset (rows (content ws w')) = mset (rows df)"
    by simp_all
qed

text \<open>Witness of C9: the sheet holds three rows, the read times out, the run ends
  without an error and the sheet holds the three new rows.\<close>

theorem failed_read_keeps_new_rows_only_witness:
  "read_err (sample_env\<lparr>read_err := Some (External ''read timed out'')\<rparr>)
     = Some (External ''read timed out'')
   \<and> update_google_sheet sample_pandas
        (sample_env\<lparr>read_err := Some (External ''read timed out'')\<rparr>) sample_new None sample_world
     = (Inr (), \<lparr>sheet1 = sample_sorted, tabs = Map.empty,
                  journal = [LogWarning ''Could not read existing data'', Clear,
                             Write sample_sorted, FormatHeader, AutoResize]\<rparr>)
   \<and> \<not> df_empty sample_new
   \<and> select_worksheet (sample_env\<lparr>read_err := Some (External ''read timed out'')\<rparr>) None
        sample_world = (Inr None, sample_world)
   \<and> sorts (argsort sample_pandas)
   \<and> length (rows (sheet1 sample_world)) = 3
   \<and> columns sample_sorted = columns sample_new
   \<and> mset (rows sample_sorted) = mset (rows sample_new)"
proof -
  let ?env = "sample_env\<lparr>read_err := Some (External ''read timed out'')\<rparr>"
  let ?w' = "\<lparr>sheet1 = sample_sorted, tabs = Map.empty,
               journal = [LogWarning ''Could not read existing data'', Clear,
                          Write sample_sorted, FormatHeader, AutoResize]\<rparr>"
  have r: "read_err ?env = Some (External ''read timed out'')" by simp
  have s: "select_worksheet ?env None sample_world = (Inr None, sample_world)"
    by (simp add: select_worksheet_def)
  have c: "content None ?w' = sample_sorted" by (simp add: content_def)
  have l: "length (rows (sheet1 sample_world)) = 3"
    by (simp add: sample_world_def sample_sheet_def)
  from failed_read_keeps_new_rows_only[OF r, of None sample_world sample_pandas sample_new None
      sample_world ?w']
    update_sample_failed_read sample_new_not_empty s sample_pandas_sorts r l
  show ?thesis by (simp only: c) simp
qed

subsection \<open>C7: cosmetic and hard failures\<close>

text \<open>
  C7. For a frame that is not empty: whether the header formatting or the column
  resize fails changes neither the outcome of \<open>update_google_sheet\<close> nor what the
  sheet holds afterwards; when one of them fails in a run that succeeds, the data was
  written and the last thing logged is the warning. A failure to open the spreadsheet,
  to find or add the named worksheet, to clear the sheet or to write it makes
  \<open>update_google_sheet\<close> end with an error, and an error of \<open>update_google_sheet\<close> is
  the error of \<open>sync_data\<close>.
\<close>

theorem formatting_failure_is_not_fatal:
  assumes "\<not> df_empty df"
  shows "fst (update_google_sheet L (env\<lparr>format_err := fe, resize_err := re\<rparr>) df worksheet_name w)
           = fst (update_google_sheet L env df worksheet_name w)
         \<and> sheet1 (snd (update_google_sheet L (env\<lparr>format_err := fe, resize_err := re\<rparr>) df
                          worksheet_name w))
           = sheet1 (snd (update_google_sheet L env df worksheet_name w))
         \<and> tabs (snd (update_google_sheet L (env\<lparr>format_err := fe, resize_err := re\<rparr>) df
                        worksheet_name w))
           = tabs (snd (update_google_sheet L env df worksheet_name w))
         \<and> (update_google_sheet L env df worksheet_name w = (Inr (), w')
              \<and> select_worksheet env worksheet_name w = (Inr ws, w1)
              \<and> (format_err env \<noteq> None \<or> resize_err env \<noteq> None)
             \<longrightarrow> Write (content ws w') \<in> set (journal w')
                 \<and> last (journal w') = LogWarning ''Header formatting failed'')
         \<and> (open_err env \<noteq> None \<or> clear_err env \<noteq> None \<or> write_err env \<noteq> None
             \<longrightarrow> isl (fst (update_google_sheet L env df worksheet_name w)))
         \<and> (worksheet_name = Some title \<and> title \<noteq> []
              \<and> (worksheet_err env \<noteq> None \<or> (tabs w title = None \<and> add_err env \<noteq> None))
             \<longrightarrow> isl (fst (update_google_sheet L env df worksheet_name w)))
         \<and> (setup_err env = None
              \<and> fetch_ga4_data L now env dimensions metrics w0 = (Inr df, w)
              \<and> fst (update_google_sheet L env df worksheet_name w) = Inl e
             \<longrightarrow> fst (sync_data L now env dimensions metrics worksheet_name w0) = Inl e)"
proof (intro conjI impI)
  show "fst (update_google_sheet L (env\<lparr>format_err := fe, resize_err := re\<rparr>) df worksheet_name w)
           = fst (update_google_sheet L env df worksheet_name w)"
    by (simp add: update_google_sheet_fst update_body_cosmetic)
  show "sheet1 (snd (update_google_sheet L (env\<lparr>format_err := fe, resize_err := re\<rparr>) df
                          worksheet_name w))
           = sheet1 (snd (update_google_sheet L env df worksheet_name w))"
    by (simp add: update_google_sheet_sheets update_body_cosmetic)
  show "tabs (snd (update_google_sheet L (env\<lparr>format_err := fe, resize_err := re\<rparr>) df
                        worksheet_name w))
           = tabs (snd (update_google_sheet L env df worksheet_name w))"
    by (simp add: update_google_sheet_sheets update_body_cosmetic)
next
  assume a: "update_google_sheet L env df worksheet_name w = (Inr (), w')
              \<and> select_worksheet env worksheet_name w = (Inr ws, w1)
              \<and> (format_err env \<noteq> None \<or> resize_err env \<noteq> None)"
  then show "Write (content ws w') \<in> set (journal w')"
    using update_success_journal(1)[OF _ assms] by blast
  from a show "last (journal w') = LogWarning ''Header formatting failed''"
    using update_success_journal(2)[OF _ assms] by blast
next
  assume "open_err env \<noteq> None \<or> clear_err env \<noteq> None \<or> write_err env \<noteq> None"
  then show "isl (fst (update_google_sheet L env df worksheet_name w))"
    using update_body_hard_failure(1)[of env _ L df worksheet_name w]
      update_body_hard_failure(2)[of env L df worksheet_name w] assms
    by (auto simp: update_google_sheet_fst)
next
  assume "worksheet_name = Some title \<and> title \<noteq> []
              \<and> (worksheet_err env \<noteq> None \<or> (tabs w title = None \<and> add_err env \<noteq> None))"
  then show "isl (fst (update_google_sheet L env df worksheet_name w))"
    using update_body_worksheet_failure[of worksheet_name title env w L df] assms
    by (simp add: update_google_sheet_fst)
next
  assume "setup_err env = None
              \<and> fetch_ga4_data L now env dimensions metrics w0 = (Inr df, w)
              \<and> fst (update_google_sheet L env df worksheet_name w) = Inl e"
  then show "fst (sync_data L now env dimensions metrics worksheet_name w0) = Inl e"
    using sync_data_propagates[OF _ _ assms] by blast
qed

text \<open>Witness of C7: with a formatting call that fails the three rows are written and
  the run succeeds; with a write that fails the run ends with an error.\<close>

theorem formatting_failure_is_not_fatal_witness:
  "\<not> df_empty sample_new
   \<and> update_google_sheet sample_pandas
        (sample_env\<lparr>format_err := Some (External ''quota exceeded'')\<rparr>) sample_new None blank_world
       = (Inr (), \<lparr>sheet1 = sample_sorted, tabs = Map.empty,
                    journal = [Clear, Write sample_sorted,
                               LogWarning ''Header formatting failed'']\<rparr>)
   \<and> select_worksheet (sample_env\<lparr>format_err := Some (External ''quota exceeded'')\<rparr>) None
        blank_world = (Inr None, blank_world)
   \<and> format_err (sample_env\<lparr>format_err := Some (External ''quota exceeded'')\<rparr>) \<noteq> None
   \<and> write_err (sample_env\<lparr>write_err := Some (External ''service unavailable'')\<rparr>) \<noteq> None
   \<and> isl (fst (update_google_sheet sample_pandas
                  (sample_env\<lparr>write_err := Some (External ''service unavailable'')\<rparr>)
                  sample_new None blank_world))"
proof -
  let ?env = "sample_env\<lparr>format_err := Some (External ''quota exceeded'')\<rparr>"
  let ?bad = "sample_env\<lparr>write_err := Some (External ''service unavailable'')\<rparr>"
  have s: "select_worksheet ?env None blank_world = (Inr None, blank_world)"
    by (simp add: select_worksheet_def)
  have f: "format_err ?env \<noteq> None" by simp
  have b: "write_err ?bad \<noteq> None" by simp
  have "isl (fst (update_google_sheet sample_pandas ?bad sample_new None blank_world))"
    using formatting_failure_is_not_fatal[OF sample_new_not_empty, where L = sample_pandas
        and env = ?bad and worksheet_name = None and w = blank_world] b
    by simp
  with update_sample_format_fails s f b sample_new_not_empty show ?thesis by simp
qed

subsection \<open>C6: a report without rows\<close>

text \<open>
  C6. When the report has no rows, \<open>fetch_ga4_data\<close> returns the empty frame and no
  error, and \<open>sync_data\<close> leaves every worksheet as it was and performs no operation
  on the sheet; it ends without an error unless the clients could not be set up. The
  same holds of \<open>update_google_sheet\<close> called with an empty frame.
\<close>

theorem no_rows_no_write:
  assumes "report env = Inr []"
  shows "fst (fetch_ga4_data L now env dimensions metrics w) = Inr DataFrame_empty
         \<and> sheet1 (snd (sync_data L now env dimensions metrics worksheet_name w)) = sheet1 w
         \<and> tabs (snd (sync_data L now env dimensions metrics worksheet_name w)) = tabs w
         \<and> filter sheet_op (journal (snd (sync_data L now env dimensions metrics worksheet_name w)))
             = filter sheet_op (journal w)
         \<and> (setup_err env = None
             \<longrightarrow> fst (sync_data L now env dimensions metrics worksheet_name w) = Inr ())
         \<and> (df_empty df
             \<longrightarrow> fst (update_google_sheet L env df worksheet_name w) = Inr ()
                 \<and> sheet1 (snd (update_google_sheet L env df worksheet_name w)) = sheet1 w
                 \<and> tabs (snd (update_google_sheet L env df worksheet_name w)) = tabs w
                 \<and> filter sheet_op (journal (snd (update_google_sheet L env df worksheet_name w)))
                     = filter sheet_op (journal w))"
proof -
  have f: "fetch_ga4_data L now env dimensions metrics w
           = (Inr DataFrame_empty, logged [LogWarning ''No data returned from GA4 API''] w)"
    using assms by (simp add: fetch_ga4_data_def Let_def)
  have s: "sync_data L now env dimensions metrics worksheet_name w
           = (case setup_err env of
                Some e \<Rightarrow> (Inl e, logged [LogError ''Sync failed''] w)
              | None \<Rightarrow> (Inr (), logged [LogWarning ''No data returned from GA4 API''] w))"
    by (simp add: sync_data_def f Let_def split: option.splits)
  show ?thesis
    by (auto simp: f s update_google_sheet_def sheet_op_def split: option.splits)
qed

text \<open>Witness of C6: an empty report against a sheet of three rows.\<close>

theorem no_rows_no_write_witness:
  "report (sample_env\<lparr>report := Inr []\<rparr>) = Inr []
   \<and> fst (fetch_ga4_data sample_pandas ''2024-03-16 06:00:00'' (sample_env\<lparr>report := Inr []\<rparr>)
            None None sample_world) = Inr DataFrame_empty
   \<and> fst (sync_data sample_pandas ''2024-03-16 06:00:00'' (sample_env\<lparr>report := Inr []\<rparr>)
            None None None sample_world) = Inr ()
   \<and> sheet1 (snd (sync_data sample_pandas ''2024-03-16 06:00:00''
                     (sample_env\<lparr>report := Inr []\<rparr>) None None None sample_world))
       = sample_sheet
   \<and> filter sheet_op (journal (snd (sync_data sample_pandas ''2024-03-16 06:00:00''
                     (sample_env\<lparr>report := Inr []\<rparr>) None None None sample_world))) = []"
proof -
  let ?env = "sample_env\<lparr>report := Inr []\<rparr>"
  have r: "report ?env = Inr []" by simp
  have s: "setup_err ?env = None" by simp
  from no_rows_no_write[OF r, where L = sample_pandas and now = "''2024-03-16 06:00:00''"
      and dimensions = None and metrics = None and w = sample_world and worksheet_name = None]
    r s
  show ?thesis by (simp add: sample_world_def)
qed

end
